theory Spec2Isabelle
  imports Main "HOL-Library.Word"
begin

section \<open>Bytes, writers and readers\<close>

type_synonym byte = "8 word"
type_synonym bytes = "byte list"

text \<open>
  Every exception the sender raises or lets through. \<open>BufferError\<close> is the spec's
  MalformedFrame; \<open>RecursionError\<close> is what Python raises when the nesting of
  containers and gzip wrappers exhausts the call stack.
\<close>

datatype error =
    BufferError
  | OverflowError
  | ValueError
  | AttributeError
  | IndexError
  | RecursionError
  | TimeoutError
  | OSError
  | BadMessageError int
  | FloodWaitError "int option"
  | InvalidDCError int string
  | RPCError int string

text \<open>Little-endian digits of an integer: \<open>n\<close> bytes, two's complement for negatives.\<close>

fun le_bytes :: "nat \<Rightarrow> int \<Rightarrow> bytes" where
  "le_bytes 0 v = []"
| "le_bytes (Suc n) v = word_of_int v # le_bytes n (v div 256)"

fun le_int :: "bytes \<Rightarrow> int" where
  "le_int [] = 0"
| "le_int (b # bs) = uint b + 256 * le_int bs"

text \<open>
  Modelled from the spec: BinaryWriter (telethon/utils, not among the sources) writes
  integers little-endian in the widths of section 4.1 (u64, i64, i32). Python's
  \<open>int.to_bytes\<close> raises OverflowError when the value does not fit the width.
\<close>

definition to_bytes :: "nat \<Rightarrow> bool \<Rightarrow> int \<Rightarrow> error + bytes" where
  "to_bytes n is_signed v =
     (if is_signed then
        (if - (2 ^ (8 * n - 1)) \<le> v \<and> v < 2 ^ (8 * n - 1) then Inr (le_bytes n v)
         else Inl OverflowError)
      else
        (if 0 \<le> v \<and> v < 2 ^ (8 * n) then Inr (le_bytes n v) else Inl OverflowError))"

definition write_int :: "bool \<Rightarrow> int \<Rightarrow> error + bytes" where
  "write_int is_signed v = to_bytes 4 is_signed v"

definition write_long :: "bool \<Rightarrow> int \<Rightarrow> error + bytes" where
  "write_long is_signed v = to_bytes 8 is_signed v"

definition from_bytes :: "bool \<Rightarrow> bytes \<Rightarrow> int" where
  "from_bytes is_signed bs =
     (let u = le_int bs
      in if is_signed \<and> 2 ^ (8 * length bs - 1) \<le> u then u - 2 ^ (8 * length bs) else u)"

text \<open>
  Modelled from the spec: BinaryReader (telethon/utils, not among the sources) is a
  cursor over a byte string. A read of more bytes than remain fails (section 4.1:
  decoding fails when \<open>msg_len\<close> exceeds what remains); so does a read of a negative
  count. Integers are little-endian.
\<close>

record reader =
  data :: bytes
  pos :: nat

definition BinaryReader :: "bytes \<Rightarrow> reader" where
  "BinaryReader bs = \<lparr>data = bs, pos = 0\<rparr>"

definition read :: "reader \<Rightarrow> int \<Rightarrow> error + bytes \<times> reader" where
  "read rd n =
     (if n < 0 \<or> int (length (data rd) - pos rd) < n then Inl BufferError
      else Inr (take (nat n) (drop (pos rd) (data rd)), rd\<lparr>pos := pos rd + nat n\<rparr>))"

definition read_int :: "bool \<Rightarrow> reader \<Rightarrow> error + int \<times> reader" where
  "read_int is_signed rd =
     (case read rd 4 of Inl e \<Rightarrow> Inl e | Inr (bs, rd') \<Rightarrow> Inr (from_bytes is_signed bs, rd'))"

definition read_long :: "bool \<Rightarrow> reader \<Rightarrow> error + int \<times> reader" where
  "read_long is_signed rd =
     (case read rd 8 of Inl e \<Rightarrow> Inl e | Inr (bs, rd') \<Rightarrow> Inr (from_bytes is_signed bs, rd'))"

definition tell_position :: "reader \<Rightarrow> int" where
  "tell_position rd = int (pos rd)"

text \<open>\<open>seek\<close> moves relative to the cursor, \<open>set_position\<close> absolutely; a negative
  target is an error, a target beyond the end is not (the next read fails).\<close>

definition set_position :: "reader \<Rightarrow> int \<Rightarrow> error + reader" where
  "set_position rd p = (if p < 0 then Inl ValueError else Inr (rd\<lparr>pos := nat p\<rparr>))"

definition seek :: "reader \<Rightarrow> int \<Rightarrow> error + reader" where
  "seek rd off = set_position rd (int (pos rd) + off)"

section \<open>Session, transport, requests\<close>

record auth_key =
  key :: bytes
  key_id :: int

datatype session_call = UpdateTimeOffset int | Save

text \<open>
  Modelled from the spec: the session store (telethon/tl/session, not among the
  sources). Section 3 gives its fields; \<open>update_time_offset\<close> and \<open>save\<close> are
  recorded as calls, in order. \<open>now_msg_id\<close> is the id the clock and the time offset
  give at the moment of the call.
\<close>

record session =
  auth_key :: auth_key
  salt :: int
  session_id :: int
  sequence :: int
  last_msg_id :: int
  now_msg_id :: int
  calls :: "session_call list"

text \<open>
  Modelled from the spec: \<open>next_msg_id()\<close> is strictly increasing (section 3): the
  clock's id when it is above the last one handed out, the last one plus 4 otherwise.
\<close>

definition get_new_msg_id :: "session \<Rightarrow> int \<times> session" where
  "get_new_msg_id s =
     (let new_msg_id = (if last_msg_id s < now_msg_id s then now_msg_id s else last_msg_id s + 4)
      in (new_msg_id, s\<lparr>last_msg_id := new_msg_id\<rparr>))"

definition update_time_offset :: "session \<Rightarrow> int \<Rightarrow> session" where
  "update_time_offset s correct_msg_id = s\<lparr>calls := calls s @ [UpdateTimeOffset correct_msg_id]\<rparr>"

definition save :: "session \<Rightarrow> session" where
  "save s = s\<lparr>calls := calls s @ [Save]\<rparr>"

text \<open>The transport is a collaborator: what it was asked to send, in order, and how
  often its pending receive was cancelled.\<close>

record transport =
  sent :: "bytes list"
  cancelled :: nat

text \<open>
  The sender's own fields (\<open>__init__\<close>). The two events and the sleep signal are
  plain values; the reentrant lock has no counterpart in a sequential run. The logger is
  kept at warning level, the threshold of Python's logging.
\<close>

record mtproto_sender =
  session :: session
  transport :: transport
  need_confirmation :: "int list"
  logging_out :: bool
  waiting_receive :: bool
  updates_thread_receiving :: bool
  updates_thread_sleep :: "int option"
  warnings :: "string list"

text \<open>
  A request as the sender sees it (\<open>MTProtoRequest\<close>): the id assigned at send, the
  content-related flag (\<open>confirmed\<close> in the source), the latch, the bytes \<open>on_send\<close>
  writes, and the readers handed to \<open>on_response\<close>, each as the bytes left under its
  cursor.
\<close>

record request =
  msg_id :: int
  confirmed :: bool
  confirm_received :: bool
  on_send :: bytes
  responses :: "bytes list"

definition on_response :: "request \<Rightarrow> reader \<Rightarrow> request" where
  "on_response rq rd = rq\<lparr>responses := responses rq @ [drop (pos rd) (data rd)]\<rparr>"

text \<open>A deserialised object of the type-language catalog; only \<open>msgs_ack\<close> has
  \<open>msg_ids\<close>.\<close>

datatype tlobject = MsgsAckObject "int list" | TLObject int bytes

text \<open>
  The collaborators that are not among the sources, taken as parameters: the key
  derivation and the cipher (helpers, crypto), gzip, the type-language reader and catalog
  (utils, tl), the serialisation of \<open>msgs_ack\<close> and the error taxonomy's must-resend
  flag (errors).
\<close>

record env =
  calc_msg_key :: "bytes \<Rightarrow> bytes"
  calc_key :: "bytes \<Rightarrow> bytes \<Rightarrow> bool \<Rightarrow> bytes \<times> bytes"
  encrypt_ige :: "bytes \<Rightarrow> bytes \<Rightarrow> bytes \<Rightarrow> bytes"
  decrypt_ige :: "bytes \<Rightarrow> bytes \<Rightarrow> bytes \<Rightarrow> bytes"
  gzip_decompress :: "bytes \<Rightarrow> error + bytes"
  tgread_bytes :: "reader \<Rightarrow> error + bytes \<times> reader"
  tgread_string :: "reader \<Rightarrow> error + string \<times> reader"
  tgread_object :: "reader \<Rightarrow> error + tlobject \<times> reader"
  tlobjects :: "int list"
  msgs_ack_on_send :: "int list \<Rightarrow> bytes"
  must_resend :: "int \<Rightarrow> string \<Rightarrow> bool"

text \<open>
  Modelled from the spec: \<open>MsgsAck\<close> (telethon/tl/types, not among the sources) is
  composed with \<open>is_content_related = false\<close> (section 4.3).
\<close>

definition MsgsAck :: "env \<Rightarrow> int list \<Rightarrow> request" where
  "MsgsAck env ids =
     \<lparr>msg_id = 0, confirmed = False, confirm_received = False,
      on_send = msgs_ack_on_send env ids, responses = []\<rparr>"

text \<open>Sequencing of steps that may raise.\<close>

definition and_then :: "error + 'a \<Rightarrow> ('a \<Rightarrow> error + 'b) \<Rightarrow> error + 'b" where
  "and_then r k = (case r of Inl e \<Rightarrow> Inl e | Inr x \<Rightarrow> k x)"

section \<open>Sequence numbers\<close>

definition generate_sequence :: "mtproto_sender \<Rightarrow> bool \<Rightarrow> int \<times> mtproto_sender" where
  "generate_sequence self confirmed' =
     (if confirmed' then
        (sequence (session self) * 2 + 1,
         self\<lparr>session := (session self)\<lparr>sequence := sequence (session self) + 1\<rparr>\<rparr>)
      else (sequence (session self) * 2, self))"

text \<open>A run of calls, one per outbound message, in order.\<close>

fun generate_sequences :: "mtproto_sender \<Rightarrow> bool list \<Rightarrow> int list \<times> mtproto_sender" where
  "generate_sequences self [] = ([], self)"
| "generate_sequences self (c # cs) =
     (case generate_sequence self c of
        (n, self') \<Rightarrow> (case generate_sequences self' cs of (ns, self'') \<Rightarrow> (n # ns, self'')))"

section \<open>Sending\<close>

text \<open>The envelope of a plaintext: key id, message key, ciphertext (client to server).\<close>

definition envelope :: "env \<Rightarrow> session \<Rightarrow> bytes \<Rightarrow> error + bytes" where
  "envelope env s plain_text =
     (let msg_key = calc_msg_key env plain_text
      in case calc_key env (key (auth_key s)) msg_key True of
           (k, iv) \<Rightarrow>
             (let cipher_text = encrypt_ige env plain_text k iv
              in and_then (write_long False (key_id (auth_key s)))
                   (\<lambda>b. Inr (b @ msg_key @ cipher_text))))"

definition send_packet ::
  "env \<Rightarrow> mtproto_sender \<Rightarrow> bytes \<Rightarrow> request \<Rightarrow> (error + unit) \<times> mtproto_sender \<times> request" where
  "send_packet env self packet rq =
     (case get_new_msg_id (session self) of
        (m, s1) \<Rightarrow>
          (let self1 = self\<lparr>session := s1\<rparr>; rq1 = rq\<lparr>msg_id := m\<rparr>
           in case and_then (write_long False (salt (session self1)))
                     (\<lambda>b1. and_then (write_long False (session_id (session self1)))
                     (\<lambda>b2. and_then (write_long True (msg_id rq1))
                     (\<lambda>b3. Inr (b1 @ b2 @ b3)))) of
                Inl e \<Rightarrow> (Inl e, self1, rq1)
              | Inr head \<Rightarrow>
                  (case generate_sequence self1 (confirmed rq1) of
                     (n, self2) \<Rightarrow>
                       (case and_then (write_int True n)
                               (\<lambda>b4. and_then (write_int True (int (length packet)))
                               (\<lambda>b5. envelope env (session self2) (head @ b4 @ b5 @ packet))) of
                          Inl e \<Rightarrow> (Inl e, self2, rq1)
                        | Inr cipher \<Rightarrow>
                            (Inr (),
                             self2\<lparr>transport :=
                               (transport self2)\<lparr>sent := sent (transport self2) @ [cipher]\<rparr>\<rparr>,
                             rq1)))))"

definition send ::
  "env \<Rightarrow> mtproto_sender \<Rightarrow> request \<Rightarrow> (error + unit) \<times> mtproto_sender \<times> request" where
  "send env self rq =
     (let self1 = (if updates_thread_receiving self
                   then self\<lparr>transport :=
                          (transport self)\<lparr>cancelled := Suc (cancelled (transport self))\<rparr>\<rparr>
                   else self);
          self2 = self1\<lparr>waiting_receive := True\<rparr>;
          acked = (if need_confirmation self2 \<noteq> []
                   then (let msgs_ack = MsgsAck env (need_confirmation self2)
                         in case send_packet env self2 (on_send msgs_ack) msgs_ack of
                              (Inl e, self3, _) \<Rightarrow> (Inl e, self3)
                            | (Inr _, self3, _) \<Rightarrow> (Inr (), self3\<lparr>need_confirmation := []\<rparr>))
                   else (Inr (), self2))
      in case acked of
           (Inl e, self3) \<Rightarrow> (Inl e, self3, rq)
         | (Inr _, self3) \<Rightarrow>
             (case send_packet env self3 (on_send rq) rq of
                (Inl e, self4, rq1) \<Rightarrow> (Inl e, self4, rq1)
              | (Inr _, self4, rq1) \<Rightarrow>
                  (Inr (), self4\<lparr>session := save (session self4)\<rparr>, rq1)))"

section \<open>Decoding\<close>

definition decode_msg :: "env \<Rightarrow> mtproto_sender \<Rightarrow> bytes \<Rightarrow> error + bytes \<times> int \<times> int" where
  "decode_msg env self body =
     (if length body < 8 then Inl BufferError
      else
        and_then (read_long True (BinaryReader body)) (\<lambda>(remote_auth_key_id, r1).
        and_then (read r1 16) (\<lambda>(msg_key, r2).
        case calc_key env (key (auth_key (session self))) msg_key False of
          (k, iv) \<Rightarrow>
            and_then (read r2 (int (length body) - tell_position r2)) (\<lambda>(cipher_text, r3).
            (let plain_text = decrypt_ige env cipher_text k iv
             in and_then (read_long True (BinaryReader plain_text)) (\<lambda>(remote_salt, p1).
                and_then (read_long True p1) (\<lambda>(remote_session_id, p2).
                and_then (read_long True p2) (\<lambda>(remote_msg_id, p3).
                and_then (read_int True p3) (\<lambda>(remote_sequence, p4).
                and_then (read_int True p4) (\<lambda>(msg_len, p5).
                and_then (read p5 msg_len) (\<lambda>(message, p6).
                Inr (message, remote_msg_id, remote_sequence))))))))))))"

text \<open>The plaintext \<open>decode_msg\<close> parses: the envelope's ciphertext, after byte 24,
  decrypted under the key derived for the server-to-client direction.\<close>

definition received_plain_text :: "env \<Rightarrow> mtproto_sender \<Rightarrow> bytes \<Rightarrow> bytes" where
  "received_plain_text env self body =
     (case calc_key env (key (auth_key (session self))) (take 16 (drop 8 body)) False of
        (k, iv) \<Rightarrow> decrypt_ige env (drop 24 body) k iv)"

section \<open>Message handling\<close>

text \<open>
  What one \<open>receive\<close> call works on: the sender, the caller's request (or \<open>None\<close>)
  and the caller's updates list (or \<open>None\<close>). A handler returns Python's \<open>None\<close>,
  \<open>False\<close> or \<open>True\<close> (here \<open>None\<close>, \<open>Some False\<close>, \<open>Some True\<close>) with the
  reader as it left it, or raises; the frame is as it stands at that moment either way.
\<close>

record frame =
  the_sender :: mtproto_sender
  the_request :: "request option"
  the_updates :: "tlobject list option"

type_synonym handled = "(error + bool option \<times> reader) \<times> frame"

definition warning :: "string \<Rightarrow> frame \<Rightarrow> frame" where
  "warning line f = f\<lparr>the_sender := (the_sender f)\<lparr>warnings := warnings (the_sender f) @ [line]\<rparr>\<rparr>"

definition startswith :: "string \<Rightarrow> string \<Rightarrow> bool" where
  "startswith s p = (take (length p) s = p)"

fun contains :: "string \<Rightarrow> string \<Rightarrow> bool" where
  "contains [] p = (p = [])"
| "contains (c # cs) p = (startswith (c # cs) p \<or> contains cs p)"

text \<open>
  Modelled from the spec: the error taxonomy (telethon/errors, not among the sources)
  extracts the integer suffix of a \<open>FLOOD_WAIT_\<close> message (section 4.7): what follows
  the prefix, read as a decimal number; \<open>None\<close> when that is not one.
\<close>

fun parse_decimal :: "nat \<Rightarrow> string \<Rightarrow> nat option" where
  "parse_decimal acc [] = Some acc"
| "parse_decimal acc (c # cs) =
     (if c \<in> set ''0123456789'' then parse_decimal (10 * acc + (of_char c - 48)) cs else None)"

definition additional_data :: "string \<Rightarrow> int option" where
  "additional_data message =
     (if startswith message ''FLOOD_WAIT_'' \<and> drop 11 message \<noteq> []
      then map_option int (parse_decimal 0 (drop 11 message)) else None)"

text \<open>The reads that open each handler, in the source's order.\<close>

definition pong_fields :: "reader \<Rightarrow> error + int \<times> reader" where
  "pong_fields rd = and_then (read_int False rd) (\<lambda>(code, r1). read_long False r1)"

definition bad_server_salt_fields :: "reader \<Rightarrow> error + int \<times> reader" where
  "bad_server_salt_fields rd =
     and_then (read_int False rd) (\<lambda>(code, r1).
     and_then (read_long False r1) (\<lambda>(bad_msg_id, r2).
     and_then (read_int True r2) (\<lambda>(bad_msg_seq_no, r3).
     and_then (read_int True r3) (\<lambda>(error_code, r4).
     read_long False r4))))"

definition bad_msg_notification_fields :: "reader \<Rightarrow> error + int \<times> reader" where
  "bad_msg_notification_fields rd =
     and_then (read_int False rd) (\<lambda>(code, r1).
     and_then (read_long False r1) (\<lambda>(request_id, r2).
     and_then (read_int True r2) (\<lambda>(request_sequence, r3).
     read_int True r3)))"

definition rpc_result_header :: "reader \<Rightarrow> error + int \<times> int \<times> reader" where
  "rpc_result_header rd =
     and_then (read_int False rd) (\<lambda>(code, r1).
     and_then (read_long False r1) (\<lambda>(request_id, r2).
     and_then (read_int False r2) (\<lambda>(inner_code, r3).
     Inr (request_id, inner_code, r3))))"

definition rpc_error_fields :: "env \<Rightarrow> reader \<Rightarrow> error + int \<times> string" where
  "rpc_error_fields env rd =
     and_then (read_int True rd) (\<lambda>(code, r4).
     and_then (tgread_string env r4) (\<lambda>(message, r5).
     Inr (code, message)))"

definition unpacked_response :: "env \<Rightarrow> reader \<Rightarrow> error + bytes \<times> reader" where
  "unpacked_response env rd =
     and_then (tgread_bytes env rd) (\<lambda>(packed_data, r4).
     and_then (gzip_decompress env packed_data) (\<lambda>unpacked_data.
     Inr (unpacked_data, r4)))"

definition handle_pong :: "frame \<Rightarrow> int \<Rightarrow> int \<Rightarrow> reader \<Rightarrow> handled" where
  "handle_pong f mid sq rd =
     (case pong_fields rd of
        Inl e \<Rightarrow> (Inl e, f)
      | Inr (received_msg_id, r2) \<Rightarrow>
          (case the_request f of
             None \<Rightarrow> (Inl AttributeError, f)
           | Some rq \<Rightarrow>
               if received_msg_id = msg_id rq
               then (Inr (Some False, r2),
                     (warning ''Pong confirmed a request'' f)
                       \<lparr>the_request := Some (rq\<lparr>confirm_received := True\<rparr>)\<rparr>)
               else (Inr (Some False, r2), f)))"

definition handle_bad_server_salt :: "env \<Rightarrow> frame \<Rightarrow> int \<Rightarrow> int \<Rightarrow> reader \<Rightarrow> handled" where
  "handle_bad_server_salt env f mid sq rd =
     (case bad_server_salt_fields rd of
        Inl e \<Rightarrow> (Inl e, f)
      | Inr (new_salt, r5) \<Rightarrow>
          (let f1 = f\<lparr>the_sender :=
                      (the_sender f)\<lparr>session := (session (the_sender f))\<lparr>salt := new_salt\<rparr>\<rparr>\<rparr>
           in case the_request f1 of
                None \<Rightarrow> (Inl ValueError, f1)
              | Some rq \<Rightarrow>
                  (case send env (the_sender f1) rq of
                     (Inl e, self', rq') \<Rightarrow>
                       (Inl e, f1\<lparr>the_sender := self', the_request := Some rq'\<rparr>)
                   | (Inr _, self', rq') \<Rightarrow>
                       (Inr (Some True, r5), f1\<lparr>the_sender := self', the_request := Some rq'\<rparr>))))"

definition handle_bad_msg_notification :: "frame \<Rightarrow> int \<Rightarrow> int \<Rightarrow> reader \<Rightarrow> handled" where
  "handle_bad_msg_notification f mid sq rd =
     (case bad_msg_notification_fields rd of
        Inl e \<Rightarrow> (Inl e, f)
      | Inr (error_code, r4) \<Rightarrow>
          if error_code = 16 \<or> error_code = 17
          then (Inr (None, r4),
                warning ''Read Bad Message error''
                  (f\<lparr>the_sender :=
                       (the_sender f)\<lparr>session :=
                          save (update_time_offset (session (the_sender f)) mid)\<rparr>\<rparr>))
          else (Inl (BadMessageError error_code), f))"

definition handle_rpc_result :: "env \<Rightarrow> frame \<Rightarrow> int \<Rightarrow> int \<Rightarrow> reader \<Rightarrow> handled" where
  "handle_rpc_result env f mid sq rd =
     (case rpc_result_header rd of
        Inl e \<Rightarrow> (Inl e, f)
      | Inr (request_id, inner_code, r3) \<Rightarrow>
          (let f1 = (case the_request f of
                       None \<Rightarrow> f
                     | Some rq \<Rightarrow>
                         if request_id = msg_id rq
                         then f\<lparr>the_request := Some (rq\<lparr>confirm_received := True\<rparr>)\<rparr>
                         else f)
           in if inner_code = 0x2144ca19 then
                (case rpc_error_fields env r3 of
                   Inl e \<Rightarrow> (Inl e, f1)
                 | Inr (code, message) \<Rightarrow>
                     (let f2 = warning ''Read RPC error'' f1
                      in if must_resend env code message \<and> the_request f2 = None
                         then (Inl ValueError, f2)
                         else
                           (let f3 = (if must_resend env code message
                                      then f2\<lparr>the_request :=
                                             map_option (\<lambda>rq. rq\<lparr>confirm_received := False\<rparr>)
                                               (the_request f2)\<rparr>
                                      else f2)
                            in if startswith message ''FLOOD_WAIT_'' then
                                 (Inl (FloodWaitError (additional_data message)),
                                  f3\<lparr>the_sender :=
                                       (the_sender f3)\<lparr>updates_thread_sleep :=
                                          additional_data message\<rparr>\<rparr>)
                               else if contains message ''_MIGRATE_'' then
                                 (Inl (InvalidDCError code message), f3)
                               else (Inl (RPCError code message), f3))))
              else
                (case the_request f1 of
                   None \<Rightarrow> (Inl ValueError, f1)
                 | Some rq \<Rightarrow>
                     if inner_code = 0x3072cfa1 then
                       (case unpacked_response env r3 of
                          Inl e \<Rightarrow> (Inl e, f1)
                        | Inr (unpacked_data, r4) \<Rightarrow>
                            (Inr (None, r4),
                             f1\<lparr>the_request :=
                                  Some (on_response rq (BinaryReader unpacked_data))\<rparr>))
                     else
                       (case seek r3 (- 4) of
                          Inl e \<Rightarrow> (Inl e, f1)
                        | Inr r4 \<Rightarrow>
                            if request_id = msg_id rq
                            then (Inr (None, r4), f1\<lparr>the_request := Some (on_response rq r4)\<rparr>)
                            else (Inr (None, r4),
                                  warning ''RPC result found for unknown request (maybe from previous connection session)'' f1)))))"

section \<open>Dispatch and the receive loop\<close>

definition truthy :: "bool option \<Rightarrow> bool" where
  "truthy r = (r = Some True)"

definition handle_msgs_ack :: "env \<Rightarrow> frame \<Rightarrow> reader \<Rightarrow> handled" where
  "handle_msgs_ack env f rd =
     (case tgread_object env rd of
        Inl e \<Rightarrow> (Inl e, f)
      | Inr (ack, r3) \<Rightarrow>
          (case the_request f of
             None \<Rightarrow> (Inr (Some False, r3), f)
           | Some rq \<Rightarrow>
               (case ack of
                  TLObject c bs \<Rightarrow> (Inl AttributeError, f)
                | MsgsAckObject msg_ids \<Rightarrow>
                    if msg_id rq \<in> set msg_ids then
                      (let f2 = warning ''Ack found for the current request ID'' f
                       in if logging_out (the_sender f2)
                          then (Inr (Some False, r3),
                                f2\<lparr>the_request := Some (rq\<lparr>confirm_received := True\<rparr>)\<rparr>)
                          else (Inr (Some False, r3), f2))
                    else (Inr (Some False, r3), f))))"

definition handle_update :: "env \<Rightarrow> frame \<Rightarrow> reader \<Rightarrow> handled" where
  "handle_update env f rd =
     (case tgread_object env rd of
        Inl e \<Rightarrow> (Inl e, f)
      | Inr (result, r3) \<Rightarrow>
          (case the_updates f of
             None \<Rightarrow> (Inr (Some False, r3), f)
           | Some us \<Rightarrow> (Inr (Some False, r3), f\<lparr>the_updates := Some (us @ [result])\<rparr>)))"

text \<open>The tail of the dispatch of \<open>_process_msg\<close>, from \<open>bad_server_salt\<close> on: none of
  these branches re-enters the dispatcher. The \<open>msgs_ack\<close> and update branches are
  written inline in the source. What the last branch prints for an unknown tag goes to the
  standard output and leaves the sender as it is.\<close>

definition process_msg_tail :: "env \<Rightarrow> frame \<Rightarrow> int \<Rightarrow> int \<Rightarrow> int \<Rightarrow> reader \<Rightarrow> handled" where
  "process_msg_tail env f mid sq code rd =
     (if code = 0xedab447b then handle_bad_server_salt env f mid sq rd
      else if code = 0xa7eff811 then handle_bad_msg_notification f mid sq rd
      else if code = 0x62d6b459 then handle_msgs_ack env f rd
      else if code \<in> set (tlobjects env) then handle_update env f rd
      else (Inr (Some False, rd), f))"

definition peek_code :: "reader \<Rightarrow> error + int \<times> reader" where
  "peek_code rd =
     and_then (read_int False rd) (\<lambda>(code, r1). and_then (seek r1 (- 4)) (\<lambda>r2. Inr (code, r2)))"

definition append_need_confirmation :: "frame \<Rightarrow> int \<Rightarrow> frame" where
  "append_need_confirmation f mid =
     f\<lparr>the_sender :=
         (the_sender f)\<lparr>need_confirmation := need_confirmation (the_sender f) @ [mid]\<rparr>\<rparr>"

definition container_header :: "reader \<Rightarrow> error + int \<times> reader" where
  "container_header rd = and_then (read_int False rd) (\<lambda>(code, r1). read_int True r1)"

definition inner_header :: "reader \<Rightarrow> error + int \<times> int \<times> reader" where
  "inner_header rd =
     and_then (read_long False rd) (\<lambda>(inner_msg_id, r1).
     and_then (read_int True r1) (\<lambda>(inner_sequence, r2).
     and_then (read_int True r2) (\<lambda>(inner_length, r3).
     Inr (inner_msg_id, inner_length, r3))))"

definition gzip_payload :: "env \<Rightarrow> reader \<Rightarrow> error + bytes \<times> reader" where
  "gzip_payload env rd =
     and_then (read_int False rd) (\<lambda>(code, r1).
     and_then (tgread_bytes env r1) (\<lambda>(packed_data, r2).
     and_then (gzip_decompress env packed_data) (\<lambda>unpacked_data.
     Inr (unpacked_data, r2))))"

text \<open>
  \<open>_process_msg\<close>, \<open>_handle_container\<close> and \<open>_handle_gzip_packed\<close> call each other.
  The two handlers take the dispatcher they re-enter as their first argument
  (\<open>process_msg'\<close>); \<open>process_msg\<close> passes itself, with one level less of the nesting
  the call stack allows. Python raises RecursionError when that is used up.
  \<open>container_loop\<close> is the \<open>for\<close> loop of \<open>_handle_container\<close>, with the iterations
  that remain.
\<close>

type_synonym dispatcher = "frame \<Rightarrow> int \<Rightarrow> int \<Rightarrow> reader \<Rightarrow> handled"

primrec container_loop ::
  "nat \<Rightarrow> dispatcher \<Rightarrow> frame \<Rightarrow> int \<Rightarrow> reader \<Rightarrow> (error + reader) \<times> frame" where
  "container_loop 0 process_msg' f sq rd = (Inr rd, f)"
| "container_loop (Suc k) process_msg' f sq rd =
     (case inner_header rd of
        Inl e \<Rightarrow> (Inl e, f)
      | Inr (inner_msg_id, inner_length, r3) \<Rightarrow>
          (case process_msg' f inner_msg_id sq r3 of
             (Inl e, f1) \<Rightarrow> (Inl e, f1)
           | (Inr (res, r4), f1) \<Rightarrow>
               (case (if \<not> truthy res then set_position r4 (tell_position r3 + inner_length)
                      else Inr r4) of
                  Inl e \<Rightarrow> (Inl e, f1)
                | Inr r5 \<Rightarrow> container_loop k process_msg' f1 sq r5)))"

definition handle_container :: "dispatcher \<Rightarrow> frame \<Rightarrow> int \<Rightarrow> int \<Rightarrow> reader \<Rightarrow> handled" where
  "handle_container process_msg' f mid sq rd =
     (case container_header rd of
        Inl e \<Rightarrow> (Inl e, f)
      | Inr (size', r2) \<Rightarrow>
          (case container_loop (nat size') process_msg' f sq r2 of
             (Inl e, f1) \<Rightarrow> (Inl e, f1)
           | (Inr r3, f1) \<Rightarrow> (Inr (Some False, r3), f1)))"

definition handle_gzip_packed ::
  "dispatcher \<Rightarrow> env \<Rightarrow> frame \<Rightarrow> int \<Rightarrow> int \<Rightarrow> reader \<Rightarrow> handled" where
  "handle_gzip_packed process_msg' env f mid sq rd =
     (case gzip_payload env rd of
        Inl e \<Rightarrow> (Inl e, f)
      | Inr (unpacked_data, r2) \<Rightarrow>
          (case process_msg' f mid sq (BinaryReader unpacked_data) of
             (Inl e, f1) \<Rightarrow> (Inl e, f1)
           | (Inr (res, r3), f1) \<Rightarrow> (Inr (res, r2), f1)))"

primrec process_msg :: "nat \<Rightarrow> env \<Rightarrow> frame \<Rightarrow> int \<Rightarrow> int \<Rightarrow> reader \<Rightarrow> handled" where
  "process_msg 0 env f mid sq rd = (Inl RecursionError, f)"
| "process_msg (Suc depth) env f mid sq rd =
     (case peek_code rd of
        Inl e \<Rightarrow> (Inl e, append_need_confirmation f mid)
      | Inr (code, r2) \<Rightarrow>
          if code = 0xf35c6d01
          then handle_rpc_result env (append_need_confirmation f mid) mid sq r2
          else if code = 0x347773c5
          then handle_pong (append_need_confirmation f mid) mid sq r2
          else if code = 0x73f1f8dc
          then handle_container (process_msg depth env) (append_need_confirmation f mid) mid sq r2
          else if code = 0x3072cfa1
          then handle_gzip_packed (process_msg depth env) env (append_need_confirmation f mid) mid sq r2
          else process_msg_tail env (append_need_confirmation f mid) mid sq code r2)"

text \<open>
  The loop of \<open>receive\<close>. \<open>inbound\<close> is what the transport delivers before the timeout,
  one envelope per \<open>transport.receive\<close>; when it is used up the transport raises
  TimeoutError.
\<close>

primrec receive_loop :: "bytes list \<Rightarrow> nat \<Rightarrow> env \<Rightarrow> frame \<Rightarrow> (error + unit) \<times> frame \<times> bytes list" where
  "receive_loop [] depth env f = (Inl TimeoutError, f, [])"
| "receive_loop (body # inbound) depth env f =
     (case decode_msg env (the_sender f) body of
        Inl e \<Rightarrow> (Inl e, f, inbound)
      | Inr (message, remote_msg_id, remote_sequence) \<Rightarrow>
          (case process_msg depth env f remote_msg_id remote_sequence (BinaryReader message) of
             (Inl e, f1) \<Rightarrow> (Inl e, f1, inbound)
           | (Inr _, f1) \<Rightarrow>
               if (case the_request f1 of
                     None \<Rightarrow> the_updates f1 \<noteq> None \<and> the_updates f1 \<noteq> Some []
                   | Some rq \<Rightarrow> confirm_received rq)
               then (Inr (), f1, inbound)
               else receive_loop inbound depth env f1))"

definition receive :: "nat \<Rightarrow> env \<Rightarrow> frame \<Rightarrow> bytes list \<Rightarrow> (error + unit) \<times> frame \<times> bytes list" where
  "receive depth env f inbound =
     (if the_request f = None \<and> the_updates f = None then (Inl ValueError, f, inbound)
      else
        (case receive_loop inbound depth env f of
           (Inl e, f1, rest) \<Rightarrow> (Inl e, f1, rest)
         | (Inr _, f1, rest) \<Rightarrow>
             (Inr (), f1\<lparr>the_sender := (the_sender f1)\<lparr>waiting_receive := False\<rparr>\<rparr>, rest)))"

definition receive_update ::
  "nat \<Rightarrow> env \<Rightarrow> mtproto_sender \<Rightarrow> bytes list \<Rightarrow> (error + tlobject) \<times> mtproto_sender \<times> bytes list" where
  "receive_update depth env self inbound =
     (case receive depth env \<lparr>the_sender = self, the_request = None, the_updates = Some []\<rparr> inbound of
        (Inl e, f1, rest) \<Rightarrow> (Inl e, the_sender f1, rest)
      | (Inr _, f1, rest) \<Rightarrow>
          (case the_updates f1 of
             Some (u # us) \<Rightarrow> (Inr u, the_sender f1, rest)
           | _ \<Rightarrow> (Inl IndexError, the_sender f1, rest)))"

section \<open>A concrete set of collaborators\<close>

text \<open>
  An instance of the collaborators, on which the sender runs on concrete inputs: the
  type-language wire format for byte strings and \<open>msgs_ack\<close>; a key derivation that
  takes the key material at offset 0 of the shared key for the client direction and at
  offset 8 for the server direction; a cipher that adds the first key byte to every byte
  and keeps the length; gzip as the identity; 303 as the must-resend code.
\<close>

definition key_byte :: "bytes \<Rightarrow> byte" where
  "key_byte k = (case k of [] \<Rightarrow> 0 | b # bs \<Rightarrow> b)"

definition sample_read_bytes :: "reader \<Rightarrow> error + bytes \<times> reader" where
  "sample_read_bytes rd =
     and_then (read rd 1) (\<lambda>(b, r1).
       if le_int b = 254 then
         and_then (read r1 3) (\<lambda>(l, r2).
         and_then (read r2 (le_int l)) (\<lambda>(d, r3).
         and_then (read r3 ((4 - le_int l mod 4) mod 4)) (\<lambda>(padding, r4). Inr (d, r4))))
       else
         and_then (read r1 (le_int b)) (\<lambda>(d, r3).
         and_then (read r3 ((4 - (le_int b + 1) mod 4) mod 4)) (\<lambda>(padding, r4). Inr (d, r4))))"

definition sample_read_string :: "reader \<Rightarrow> error + string \<times> reader" where
  "sample_read_string rd =
     and_then (sample_read_bytes rd) (\<lambda>(d, r1). Inr (map (\<lambda>b. char_of (uint b)) d, r1))"

primrec read_longs :: "nat \<Rightarrow> reader \<Rightarrow> error + int list \<times> reader" where
  "read_longs 0 rd = Inr ([], rd)"
| "read_longs (Suc n) rd =
     and_then (read_long True rd) (\<lambda>(x, r1).
     and_then (read_longs n r1) (\<lambda>(xs, r2). Inr (x # xs, r2)))"

definition sample_read_object :: "reader \<Rightarrow> error + tlobject \<times> reader" where
  "sample_read_object rd =
     and_then (read_int False rd) (\<lambda>(code, r1).
       if code = 0x62d6b459 then
         and_then (read_int False r1) (\<lambda>(vector, r2).
         and_then (read_int True r2) (\<lambda>(n, r3).
         and_then (read_longs (nat n) r3) (\<lambda>(ids, r4). Inr (MsgsAckObject ids, r4))))
       else Inr (TLObject code (drop (pos r1) (data r1)), r1\<lparr>pos := length (data r1)\<rparr>))"

definition sample_msgs_ack_on_send :: "int list \<Rightarrow> bytes" where
  "sample_msgs_ack_on_send ids =
     le_bytes 4 0x62d6b459 @ le_bytes 4 0x1cb5c415 @ le_bytes 4 (int (length ids))
       @ concat (map (le_bytes 8) ids)"

definition sample_env :: env where
  "sample_env =
     \<lparr>calc_msg_key = (\<lambda>plain_text. take 16 (plain_text @ replicate 16 0)),
      calc_key = (\<lambda>shared_key msg_key client.
         (take 32 (drop (if client then 0 else 8) shared_key), take 32 msg_key)),
      encrypt_ige = (\<lambda>plain_text k iv. map (\<lambda>b. b + key_byte k) plain_text),
      decrypt_ige = (\<lambda>cipher_text k iv. map (\<lambda>b. b - key_byte k) cipher_text),
      gzip_decompress = (\<lambda>packed_data. Inr packed_data),
      tgread_bytes = sample_read_bytes,
      tgread_string = sample_read_string,
      tgread_object = sample_read_object,
      tlobjects = [0x7f3b18ea],
      msgs_ack_on_send = sample_msgs_ack_on_send,
      must_resend = (\<lambda>code message. code = 303)\<rparr>"

text \<open>A fresh sender over a session with the given shared key, and a content-related
  request with a three-byte body.\<close>

definition sample_sender :: "bytes \<Rightarrow> mtproto_sender" where
  "sample_sender shared_key =
     \<lparr>session =
        \<lparr>auth_key = \<lparr>key = shared_key, key_id = 7\<rparr>, salt = 5, session_id = 9, sequence = 0,
         last_msg_id = 0, now_msg_id = 400, calls = []\<rparr>,
      transport = \<lparr>sent = [], cancelled = 0\<rparr>,
      need_confirmation = [], logging_out = False, waiting_receive = False,
      updates_thread_receiving = False, updates_thread_sleep = None, warnings = []\<rparr>"

definition sample_request :: request where
  "sample_request =
     \<lparr>msg_id = 0, confirmed = True, confirm_received = False, on_send = [1, 2, 3],
      responses = []\<rparr>"

text \<open>
  The cipher of \<open>env\<close> under shared key \<open>k\<close> is its own inverse across the two
  directions: what the client-direction key encrypts, the server-direction key derived
  from the same message key decrypts, up to padding behind the plaintext; and message
  keys have 16 bytes.
\<close>

definition inverts_across :: "env \<Rightarrow> bytes \<Rightarrow> bool" where
  "inverts_across env k =
     (\<forall>plain_text.
        length (calc_msg_key env plain_text) = 16 \<and>
        take (length plain_text)
          (decrypt_ige env
             (encrypt_ige env plain_text
                (fst (calc_key env k (calc_msg_key env plain_text) True))
                (snd (calc_key env k (calc_msg_key env plain_text) True)))
             (fst (calc_key env k (calc_msg_key env plain_text) False))
             (snd (calc_key env k (calc_msg_key env plain_text) False)))
          = plain_text)"

text \<open>The fields of an outbound plaintext fit their widths on the wire.\<close>

definition fits_wire :: "mtproto_sender \<Rightarrow> bytes \<Rightarrow> request \<Rightarrow> bool" where
  "fits_wire self packet rq =
     (0 \<le> salt (session self) \<and> salt (session self) < 2 ^ 64
      \<and> 0 \<le> session_id (session self) \<and> session_id (session self) < 2 ^ 64
      \<and> 0 \<le> key_id (auth_key (session self)) \<and> key_id (auth_key (session self)) < 2 ^ 64
      \<and> - (2 ^ 63) \<le> fst (get_new_msg_id (session self))
      \<and> fst (get_new_msg_id (session self)) < 2 ^ 63
      \<and> - (2 ^ 31) \<le> fst (generate_sequence self (confirmed rq))
      \<and> fst (generate_sequence self (confirmed rq)) < 2 ^ 31
      \<and> int (length packet) < 2 ^ 31)"

section \<open>The wire format, as section 6 of the specification gives it\<close>

text \<open>
  The plaintext: \<open>salt(u64) || session_id(u64) || msg_id(u64) || sequence(i32) ||
  body_len(i32) || body\<close>, little-endian.
\<close>

definition plain_text_of :: "int \<Rightarrow> int \<Rightarrow> int \<Rightarrow> int \<Rightarrow> bytes \<Rightarrow> bytes" where
  "plain_text_of salt' sid m n packet =
     le_bytes 8 salt' @ le_bytes 8 sid @ le_bytes 8 m @ le_bytes 4 n
       @ le_bytes 4 (int (length packet)) @ packet"

text \<open>The outbound envelope: \<open>auth_key_id(u64) || msg_key(16) || ciphertext\<close>, keyed for
  the client-to-server direction.\<close>

definition sealed :: "env \<Rightarrow> auth_key \<Rightarrow> bytes \<Rightarrow> bytes" where
  "sealed env ak plain_text =
     le_bytes 8 (key_id ak) @ calc_msg_key env plain_text
       @ encrypt_ige env plain_text
           (fst (calc_key env (key ak) (calc_msg_key env plain_text) True))
           (snd (calc_key env (key ak) (calc_msg_key env plain_text) True))"

text \<open>The envelope of the next packet a sender in state \<open>self\<close> puts on the wire for
  \<open>rq\<close>, and the sender after it.\<close>

definition sent_packet :: "env \<Rightarrow> mtproto_sender \<Rightarrow> bytes \<Rightarrow> request \<Rightarrow> bytes" where
  "sent_packet env self packet rq =
     sealed env (auth_key (session self))
       (plain_text_of (salt (session self)) (session_id (session self))
          (fst (get_new_msg_id (session self))) (fst (generate_sequence self (confirmed rq)))
          packet)"

definition after_packet :: "env \<Rightarrow> mtproto_sender \<Rightarrow> bytes \<Rightarrow> request \<Rightarrow> mtproto_sender" where
  "after_packet env self packet rq =
     self\<lparr>session := (session self)
            \<lparr>last_msg_id := fst (get_new_msg_id (session self)),
             sequence := sequence (session self) + (if confirmed rq then 1 else 0)\<rparr>,
          transport := (transport self)
            \<lparr>sent := sent (transport self) @ [sent_packet env self packet rq]\<rparr>\<rparr>"

text \<open>The sender once \<open>send\<close> holds the lock: the pending receive of the updates
  thread cancelled when there is one, and \<open>waiting_receive\<close> set.\<close>

definition send_entry :: "mtproto_sender \<Rightarrow> mtproto_sender" where
  "send_entry self =
     (if updates_thread_receiving self
      then self\<lparr>transport := (transport self)\<lparr>cancelled := Suc (cancelled (transport self))\<rparr>\<rparr>
      else self)\<lparr>waiting_receive := True\<rparr>"



text \<open>A frame in the middle of a \<open>receive\<close>: the inbound message 55 awaits its
  acknowledgement. And a \<open>bad_server_salt\<close> message that announces the salt 99.\<close>

definition sample_frame :: "request option \<Rightarrow> frame" where
  "sample_frame rq =
     \<lparr>the_sender = (sample_sender [])\<lparr>need_confirmation := [55]\<rparr>, the_request = rq,
      the_updates = Some []\<rparr>"


text \<open>The result is an \<open>rpc_error\<close> that the error taxonomy declares must-resend.\<close>

definition must_resend_error :: "env \<Rightarrow> int \<Rightarrow> reader \<Rightarrow> bool" where
  "must_resend_error env inner_code rd =
     (inner_code = 0x2144ca19 \<and>
      (case rpc_error_fields env rd of
         Inl e \<Rightarrow> False
       | Inr (code, message) \<Rightarrow> must_resend env code message))"

text \<open>
  Messages as the server frames them, for the sample session (empty shared key, so the
  sample cipher is the identity): an envelope with remote msg_id 808 and sequence 2, a
  pong, a \<open>bad_msg_notification\<close>, and \<open>rpc_result\<close>s with a gzipped body \<open>[9, 9, 9]\<close>,
  an \<open>rpc_error\<close> with message \<open>FLOOD_WAIT_7\<close>, and a plain body.
\<close>

definition inbound_envelope :: "bytes \<Rightarrow> bytes" where
  "inbound_envelope message = replicate 24 0 @ plain_text_of 5 9 808 2 message"

definition pong_message :: bytes where
  "pong_message = le_bytes 4 0x347773c5 @ le_bytes 8 400 @ le_bytes 8 1234"

definition bad_msg_message :: "int \<Rightarrow> bytes" where
  "bad_msg_message error_code =
     le_bytes 4 0xa7eff811 @ le_bytes 8 400 @ le_bytes 4 1 @ le_bytes 4 error_code"

definition rpc_result_message :: "int \<Rightarrow> bytes \<Rightarrow> bytes" where
  "rpc_result_message request_id inner = le_bytes 4 0xf35c6d01 @ le_bytes 8 request_id @ inner"

definition gzip_inner :: bytes where
  "gzip_inner = le_bytes 4 0x3072cfa1 @ [3, 9, 9, 9]"

definition rpc_error_inner :: "int \<Rightarrow> bytes" where
  "rpc_error_inner code =
     le_bytes 4 0x2144ca19 @ le_bytes 4 code @ [12] @ map of_char ''FLOOD_WAIT_7'' @ [0, 0, 0]"

definition plain_inner :: bytes where
  "plain_inner = le_bytes 4 0x997275b5"

section \<open>Properties of the sequence rule\<close>

lemma generate_sequences_Cons:
  "generate_sequences self (c # cs)
     = (fst (generate_sequence self c) # fst (generate_sequences (snd (generate_sequence self c)) cs),
        snd (generate_sequences (snd (generate_sequence self c)) cs))"
  by (simp split: prod.splits)

lemma generate_sequence_True:
  "generate_sequence self True
     = (2 * sequence (session self) + 1,
        self\<lparr>session := (session self)\<lparr>sequence := sequence (session self) + 1\<rparr>\<rparr>)"
  by (simp add: generate_sequence_def)

lemma generate_sequence_False:
  "generate_sequence self False = (2 * sequence (session self), self)"
  by (simp add: generate_sequence_def)

lemma generate_sequences_parity:
  "map odd (fst (generate_sequences self cs)) = cs"
proof (induction cs arbitrary: self)
  case Nil
  show ?case by simp
next
  case (Cons c cs)
  show ?case
    by (cases c)
       (simp_all only: generate_sequences_Cons generate_sequence_True generate_sequence_False
          fst_conv snd_conv list.map Cons.IH, simp_all)
qed

lemma generate_sequences_counter:
  "sequence (session (snd (generate_sequences self cs)))
     = sequence (session self) + int (length (filter id cs))"
proof (induction cs arbitrary: self)
  case Nil
  show ?case by simp
next
  case (Cons c cs)
  show ?case
    by (cases c)
       (simp_all only: generate_sequences_Cons generate_sequence_True generate_sequence_False
          fst_conv snd_conv Cons.IH, simp_all)
qed

lemma generate_sequences_odd_series:
  "filter odd (fst (generate_sequences self cs))
     = map (\<lambda>k. 2 * (sequence (session self) + int k) + 1) [0..<length (filter id cs)]"
proof (induction cs arbitrary: self)
  case Nil
  show ?case by simp
next
  case (Cons c cs)
  show ?case
  proof (cases c)
    case True
    let ?n = "sequence (session self)"
    let ?self' = "self\<lparr>session := (session self)\<lparr>sequence := ?n + 1\<rparr>\<rparr>"
    have "filter odd (fst (generate_sequences self (c # cs)))
            = (2 * ?n + 1) # filter odd (fst (generate_sequences ?self' cs))"
      using True
      by (simp add: generate_sequences_Cons generate_sequence_True del: generate_sequences.simps)
    also have "\<dots> = (2 * ?n + 1)
            # map (\<lambda>k. 2 * (?n + int (Suc k)) + 1) [0..<length (filter id cs)]"
      unfolding Cons.IH by (simp add: algebra_simps)
    also have "\<dots> = map (\<lambda>k. 2 * (?n + int k) + 1) [0..<length (filter id (c # cs))]"
      using True by (simp add: map_upt_Suc del: upt_Suc)
    finally show ?thesis .
  next
    case False
    have "filter odd (fst (generate_sequences self (c # cs)))
            = filter odd (fst (generate_sequences self cs))"
      using False
      by (simp add: generate_sequences_Cons generate_sequence_False del: generate_sequences.simps)
    then show ?thesis
      using False by (simp add: Cons.IH)
  qed
qed

text \<open>
  Claim C2. A content-related message receives \<open>2 * n + 1\<close> and the counter goes to
  \<open>n + 1\<close>; any other message receives \<open>2 * n\<close> and leaves the counter alone. Over any
  run of sends the parity of each number is the content flag of its message, and the odd
  numbers handed out are exactly \<open>2 * n + 1, 2 * (n + 1) + 1, \<dots>\<close>, one per
  content-related message, with no gap.
\<close>

theorem sequence_rule:
  "generate_sequence self True
     = (2 * sequence (session self) + 1,
        self\<lparr>session := (session self)\<lparr>sequence := sequence (session self) + 1\<rparr>\<rparr>)
   \<and> generate_sequence self False = (2 * sequence (session self), self)
   \<and> map odd (fst (generate_sequences self cs)) = cs
   \<and> filter odd (fst (generate_sequences self cs))
       = map (\<lambda>k. 2 * (sequence (session self) + int k) + 1) [0..<length (filter id cs)]
   \<and> sequence (session (snd (generate_sequences self cs)))
       = sequence (session self) + int (length (filter id cs))"
  using generate_sequences_parity [of self cs] generate_sequences_odd_series [of self cs]
    generate_sequences_counter [of self cs]
  by (simp add: generate_sequence_def)

section \<open>Integers on the wire\<close>

lemma length_le_bytes [simp]: "length (le_bytes n v) = n"
  by (induction n arbitrary: v) auto

lemma le_int_le_bytes: "le_int (le_bytes n v) = v mod 256 ^ n"
proof (induction n arbitrary: v)
  case 0
  show ?case by simp
next
  case (Suc n)
  have "uint (word_of_int v :: byte) = v mod 256"
    by (simp add: uint_word_of_int)
  then have "le_int (le_bytes (Suc n) v) = v mod 256 + 256 * ((v div 256) mod 256 ^ n)"
    by (simp add: Suc.IH)
  also have "\<dots> = v mod (256 * 256 ^ n)"
    using zmod_zmult2_eq [of "256 ^ n" v 256] by simp
  finally show ?case by simp
qed

lemma from_bytes_unsigned:
  assumes "0 \<le> v" and "v < 2 ^ (8 * n)"
  shows "from_bytes False (le_bytes n v) = v"
proof -
  have "(256::int) ^ n = 2 ^ (8 * n)"
    by (simp add: power_mult)
  then show ?thesis
    using assms by (simp add: from_bytes_def le_int_le_bytes)
qed

lemma from_bytes_signed:
  assumes "0 < n" and "- (2 ^ (8 * n - 1)) \<le> v" and "v < 2 ^ (8 * n - 1)"
  shows "from_bytes True (le_bytes n v) = v"
proof -
  have pw: "(256::int) ^ n = 2 ^ (8 * n)"
    by (simp add: power_mult)
  have "8 * n = Suc (8 * n - 1)"
    using assms(1) by simp
  then have half: "(2::int) ^ (8 * n) = 2 * 2 ^ (8 * n - 1)"
    by (metis power_Suc)
  have u: "le_int (le_bytes n v) = v mod 2 ^ (8 * n)"
    by (simp add: le_int_le_bytes pw)
  show ?thesis
  proof (cases "0 \<le> v")
    case True
    then have "v mod 2 ^ (8 * n) = v"
      using assms(3) half by simp
    then show ?thesis
      using assms(3) by (simp add: from_bytes_def u)
  next
    case False
    have "v mod 2 ^ (8 * n) = (v + 2 ^ (8 * n)) mod 2 ^ (8 * n)"
      by simp
    also have "\<dots> = v + 2 ^ (8 * n)"
      using False assms(2) half by (intro mod_pos_pos_trivial) linarith+
    finally have "v mod 2 ^ (8 * n) = v + 2 ^ (8 * n)" .
    then show ?thesis
      using assms(2) half False by (simp add: from_bytes_def u)
  qed
qed

section \<open>The frame codec\<close>

lemma send_packet_fits:
  assumes "fits_wire self packet rq"
  shows "send_packet env self packet rq
           = (Inr (), after_packet env self packet rq,
              rq\<lparr>msg_id := fst (get_new_msg_id (session self))\<rparr>)"
  using assms
  by (cases "confirmed rq")
     (simp_all add: send_packet_def fits_wire_def get_new_msg_id_def generate_sequence_def
      envelope_def write_long_def write_int_def to_bytes_def and_then_def Let_def
      after_packet_def sent_packet_def sealed_def plain_text_of_def split: prod.splits)

lemma read_at:
  "read \<lparr>data = d, pos = p\<rparr> n =
     (if n < 0 \<or> int (length d - p) < n then Inl BufferError
      else Inr (take (nat n) (drop p d), \<lparr>data = d, pos = p + nat n\<rparr>))"
  by (simp add: read_def)

lemma read_int_at:
  "read_int sg \<lparr>data = d, pos = p\<rparr> =
     (if length d - p < 4 then Inl BufferError
      else Inr (from_bytes sg (take 4 (drop p d)), \<lparr>data = d, pos = p + 4\<rparr>))"
  by (simp add: read_int_def read_at)

lemma read_long_at:
  "read_long sg \<lparr>data = d, pos = p\<rparr> =
     (if length d - p < 8 then Inl BufferError
      else Inr (from_bytes sg (take 8 (drop p d)), \<lparr>data = d, pos = p + 8\<rparr>))"
  by (simp add: read_long_def read_at)

lemma and_then_Inl [simp]: "and_then (Inl e) k = Inl e"
  by (simp add: and_then_def)

lemma and_then_Inr [simp]: "and_then (Inr x) k = k x"
  by (simp add: and_then_def)

lemma and_then_if:
  "and_then (if c then Inl e else Inr x) k = (if c then Inl e else k x)"
  by simp

lemma decode_msg_eq:
  "decode_msg env self body =
     (if length body < 24 then Inl BufferError
      else if length (received_plain_text env self body) < 32 then Inl BufferError
      else if from_bytes True (take 4 (drop 28 (received_plain_text env self body))) < 0
              \<or> int (length (received_plain_text env self body)) - 32
                   < from_bytes True (take 4 (drop 28 (received_plain_text env self body)))
           then Inl BufferError
      else Inr (take (nat (from_bytes True (take 4 (drop 28 (received_plain_text env self body)))))
                  (drop 32 (received_plain_text env self body)),
                from_bytes True (take 8 (drop 16 (received_plain_text env self body))),
                from_bytes True (take 4 (drop 24 (received_plain_text env self body)))))"
proof (cases "length body < 24")
  case True
  then show ?thesis
    by (simp add: decode_msg_def BinaryReader_def read_long_at read_at and_then_if)
next
  case False
  obtain k iv where kiv:
    "calc_key env (key (auth_key (session self))) (take 16 (drop 8 body)) False = (k, iv)"
    by (cases "calc_key env (key (auth_key (session self))) (take 16 (drop 8 body)) False")
  let ?pt = "decrypt_ige env (drop 24 body) k iv"
  have pt: "received_plain_text env self body = ?pt"
    by (simp add: received_plain_text_def kiv)
  have outer: "decode_msg env self body =
      and_then (read_long True (BinaryReader ?pt)) (\<lambda>(remote_salt, p1).
      and_then (read_long True p1) (\<lambda>(remote_session_id, p2).
      and_then (read_long True p2) (\<lambda>(remote_msg_id, p3).
      and_then (read_int True p3) (\<lambda>(remote_sequence, p4).
      and_then (read_int True p4) (\<lambda>(msg_len, p5).
      and_then (read p5 msg_len) (\<lambda>(message, p6).
      Inr (message, remote_msg_id, remote_sequence)))))))"
    using False
    by (simp add: decode_msg_def BinaryReader_def read_long_at read_at tell_position_def kiv
        Let_def)
  show ?thesis
  proof (cases "length ?pt < 32")
    case True
    then show ?thesis
      unfolding outer pt using False
      by (simp add: BinaryReader_def read_long_at read_int_at and_then_if)
  next
    case long: False
    define n where "n = length ?pt"
    have n: "\<not> n < 8" "\<not> n - 8 < 8" "\<not> n - 16 < 8" "\<not> n - 24 < 4" "\<not> n - 28 < 4"
      "int (n - 32) = int n - 32" "\<not> n < 32"
      using long by (simp_all add: n_def)
    show ?thesis
      unfolding outer pt
      using False n by (simp add: BinaryReader_def read_long_at read_int_at read_at n_def [symmetric])
  qed
qed

lemma decode_sent_packet:
  assumes fits: "fits_wire self packet rq"
    and inv: "inverts_across env (key (auth_key (session self)))"
    and same_key: "auth_key (session self') = auth_key (session self)"
  shows "decode_msg env self' (sent_packet env self packet rq)
           = Inr (packet, fst (get_new_msg_id (session self)),
                  fst (generate_sequence self (confirmed rq)))"
proof -
  let ?m = "fst (get_new_msg_id (session self))"
  let ?n = "fst (generate_sequence self (confirmed rq))"
  let ?k = "key (auth_key (session self))"
  let ?pt = "plain_text_of (salt (session self)) (session_id (session self)) ?m ?n packet"
  let ?mk = "calc_msg_key env ?pt"
  let ?body = "sent_packet env self packet rq"
  let ?d = "received_plain_text env self' ?body"
  have mk: "length ?mk = 16"
    using inv by (simp add: inverts_across_def)
  have body: "?body = le_bytes 8 (key_id (auth_key (session self))) @ ?mk
      @ encrypt_ige env ?pt (fst (calc_key env ?k ?mk True)) (snd (calc_key env ?k ?mk True))"
    by (simp add: sent_packet_def sealed_def)
  have key16: "take 16 (drop 8 ?body) = ?mk"
    unfolding body using mk by simp
  have rest: "drop 24 ?body
      = encrypt_ige env ?pt (fst (calc_key env ?k ?mk True)) (snd (calc_key env ?k ?mk True))"
    unfolding body using mk by simp
  have d: "?d = decrypt_ige env
      (encrypt_ige env ?pt (fst (calc_key env ?k ?mk True)) (snd (calc_key env ?k ?mk True)))
      (fst (calc_key env ?k ?mk False)) (snd (calc_key env ?k ?mk False))"
    unfolding received_plain_text_def key16 rest same_key by (simp add: case_prod_beta)
  have "take (length ?pt) ?d = ?pt"
    unfolding d using inv by (simp add: inverts_across_def)
  then obtain pad where pad: "?d = ?pt @ pad"
    by (metis append_take_drop_id)
  have len_body: "\<not> length ?body < 24"
    unfolding body using mk by simp
  have len_pt: "length ?pt = 32 + length packet"
    by (simp add: plain_text_of_def)
  have f_len: "take 4 (drop 28 ?d) = le_bytes 4 (int (length packet))"
    unfolding pad by (simp add: plain_text_of_def)
  have f_seq: "take 4 (drop 24 ?d) = le_bytes 4 ?n"
    unfolding pad by (simp add: plain_text_of_def)
  have f_id: "take 8 (drop 16 ?d) = le_bytes 8 ?m"
    unfolding pad by (simp add: plain_text_of_def)
  have f_body: "take (length packet) (drop 32 ?d) = packet"
    unfolding pad by (simp add: plain_text_of_def)
  have v_len: "from_bytes True (le_bytes 4 (int (length packet))) = int (length packet)"
    using fits by (intro from_bytes_signed) (simp_all add: fits_wire_def)
  have v_seq: "from_bytes True (le_bytes 4 ?n) = ?n"
    using fits by (intro from_bytes_signed) (simp_all add: fits_wire_def)
  have v_id: "from_bytes True (le_bytes 8 ?m) = ?m"
    using fits by (intro from_bytes_signed) (simp_all add: fits_wire_def)
  have len_d: "length ?d = 32 + length packet + length pad"
    unfolding pad by (simp add: len_pt)
  show ?thesis
    unfolding decode_msg_eq f_len f_seq f_id v_len v_seq v_id
    using len_body f_body by (simp add: len_d)
qed


text \<open>
  Claim C1, as amended. \<open>_send_packet\<close> keys the cipher for the client-to-server
  direction and \<open>_decode_msg\<close> for the server-to-client direction. When the header
  fields fit their widths on the wire and the cipher is its own inverse across the two
  directions under the session's key, the packet is sent, and decoding the envelope just
  sent yields the payload, the msg_id minted for it and the sequence number minted for it.
\<close>

theorem frame_round_trip:
  assumes "fits_wire self packet rq"
    and "inverts_across env (key (auth_key (session self)))"
  shows "case send_packet env self packet rq of
           (r, self', rq') \<Rightarrow>
             r = Inr ()
             \<and> msg_id rq' = fst (get_new_msg_id (session self))
             \<and> sent (transport self') = sent (transport self) @ [sent_packet env self packet rq]
             \<and> decode_msg env self' (last (sent (transport self')))
                 = Inr (packet, msg_id rq', fst (generate_sequence self (confirmed rq)))"
proof -
  have same: "auth_key (session (after_packet env self packet rq)) = auth_key (session self)"
    by (simp add: after_packet_def)
  show ?thesis
    unfolding send_packet_fits [OF assms(1)]
    using decode_sent_packet [OF assms same]
    by (simp add: after_packet_def)
qed

lemma sample_fits: "fits_wire (sample_sender k) [1, 2, 3] sample_request"
  by (simp add: fits_wire_def sample_sender_def sample_request_def get_new_msg_id_def
      generate_sequence_def)

lemma sample_inverts: "inverts_across sample_env [3, 0, 0, 0, 0, 0, 0, 0, 3]"
  by (auto simp: inverts_across_def sample_env_def key_byte_def comp_def)

text \<open>A shared key with the same byte at offsets 0 and 8: both directions derive the
  same cipher key, and the three-byte payload comes back with msg_id 400 and sequence 1.\<close>

theorem frame_round_trip_witness:
  "fits_wire (sample_sender [3, 0, 0, 0, 0, 0, 0, 0, 3]) [1, 2, 3] sample_request
   \<and> inverts_across sample_env (key (auth_key (session (sample_sender [3, 0, 0, 0, 0, 0, 0, 0, 3]))))
   \<and> decode_msg sample_env
        (fst (snd (send_packet sample_env (sample_sender [3, 0, 0, 0, 0, 0, 0, 0, 3]) [1, 2, 3]
           sample_request)))
        (last (sent (transport (fst (snd (send_packet sample_env
           (sample_sender [3, 0, 0, 0, 0, 0, 0, 0, 3]) [1, 2, 3] sample_request))))))
       = Inr ([1, 2, 3], 400, 1)"
proof -
  have k: "key (auth_key (session (sample_sender [3, 0, 0, 0, 0, 0, 0, 0, 3])))
             = [3, 0, 0, 0, 0, 0, 0, 0, 3]"
    by (simp add: sample_sender_def)
  have h1: "fits_wire (sample_sender [3, 0, 0, 0, 0, 0, 0, 0, 3]) [1, 2, 3] sample_request"
    by (rule sample_fits)
  have h2: "inverts_across sample_env
              (key (auth_key (session (sample_sender [3, 0, 0, 0, 0, 0, 0, 0, 3]))))"
    unfolding k by (rule sample_inverts)
  have v: "fst (get_new_msg_id (session (sample_sender [3, 0, 0, 0, 0, 0, 0, 0, 3]))) = 400"
    "fst (generate_sequence (sample_sender [3, 0, 0, 0, 0, 0, 0, 0, 3]) (confirmed sample_request)) = 1"
    by (simp_all add: sample_sender_def sample_request_def get_new_msg_id_def generate_sequence_def)
  show ?thesis
    using frame_round_trip [OF h1 h2] h1 h2 v
    by (auto split: prod.splits)
qed

text \<open>
  Claim C1 as stated fails: with a shared key whose bytes at offsets 0 and 8 differ, the
  two directions derive different cipher keys. The packet is sent, and decoding the
  envelope just sent, under the same session, raises BufferError instead of returning the
  payload.
\<close>

theorem frame_round_trip_counterexample:
  "fits_wire (sample_sender [2, 0, 0, 0, 0, 0, 0, 0, 1]) [1, 2, 3] sample_request
   \<and> fst (send_packet sample_env (sample_sender [2, 0, 0, 0, 0, 0, 0, 0, 1]) [1, 2, 3]
        sample_request) = Inr ()
   \<and> decode_msg sample_env
        (fst (snd (send_packet sample_env (sample_sender [2, 0, 0, 0, 0, 0, 0, 0, 1]) [1, 2, 3]
           sample_request)))
        (last (sent (transport (fst (snd (send_packet sample_env
           (sample_sender [2, 0, 0, 0, 0, 0, 0, 0, 1]) [1, 2, 3] sample_request))))))
       = Inl BufferError"
  by code_simp



section \<open>Sending and the pending acknowledgements\<close>

lemma send_packet_unfit:
  assumes "\<not> fits_wire self packet rq"
  shows "fst (send_packet env self packet rq) = Inl OverflowError"
  using assms
  by (cases "confirmed rq")
     (auto simp add: send_packet_def fits_wire_def get_new_msg_id_def generate_sequence_def
      envelope_def write_long_def write_int_def to_bytes_def and_then_def Let_def
      split: prod.splits)

lemma sent_packet_session:
  "session self' = session self \<Longrightarrow> sent_packet env self' packet rq = sent_packet env self packet rq"
  by (simp add: sent_packet_def generate_sequence_def)

lemma fits_wire_session:
  "session self' = session self \<Longrightarrow> fits_wire self' packet rq = fits_wire self packet rq"
  by (simp add: fits_wire_def generate_sequence_def)

lemma send_no_acks:
  assumes "need_confirmation self = []"
  shows "send env self rq =
     (if fits_wire self (on_send rq) rq
      then (Inr (),
            (after_packet env (send_entry self) (on_send rq) rq)
              \<lparr>session := save (session (after_packet env (send_entry self) (on_send rq) rq))\<rparr>,
            rq\<lparr>msg_id := fst (get_new_msg_id (session self))\<rparr>)
      else (Inl OverflowError, snd (send_packet env (send_entry self) (on_send rq) rq)))"
proof -
  have s: "session (send_entry self) = session self"
    by (simp add: send_entry_def)
  have n: "need_confirmation (send_entry self) = []"
    using assms by (simp add: send_entry_def)
  have unfold: "send env self rq =
      (case send_packet env (send_entry self) (on_send rq) rq of
         (Inl e, self4, rq1) \<Rightarrow> (Inl e, self4, rq1)
       | (Inr _, self4, rq1) \<Rightarrow> (Inr (), self4\<lparr>session := save (session self4)\<rparr>, rq1))"
    using n by (simp add: send_def send_entry_def Let_def)
  show ?thesis
  proof (cases "fits_wire self (on_send rq) rq")
    case True
    then have "fits_wire (send_entry self) (on_send rq) rq"
      by (simp add: fits_wire_session [OF s])
    then show ?thesis
      unfolding unfold using True by (simp add: send_packet_fits s)
  next
    case False
    then have "\<not> fits_wire (send_entry self) (on_send rq) rq"
      by (simp add: fits_wire_session [OF s])
    from send_packet_unfit [OF this, of env] show ?thesis
      unfolding unfold using False
      by (cases "send_packet env (send_entry self) (on_send rq) rq") (auto split: sum.splits)
  qed
qed

lemma send_with_acks:
  assumes "need_confirmation self \<noteq> []"
    and ok: "fst (send env self rq) = Inr ()"
  shows "send env self rq =
     (Inr (),
      (after_packet env
         ((after_packet env (send_entry self)
             (on_send (MsgsAck env (need_confirmation self)))
             (MsgsAck env (need_confirmation self)))\<lparr>need_confirmation := []\<rparr>)
         (on_send rq) rq)
        \<lparr>session := save (session (after_packet env
           ((after_packet env (send_entry self)
               (on_send (MsgsAck env (need_confirmation self)))
               (MsgsAck env (need_confirmation self)))\<lparr>need_confirmation := []\<rparr>)
           (on_send rq) rq))\<rparr>,
      rq\<lparr>msg_id := fst (get_new_msg_id (session (after_packet env (send_entry self)
             (on_send (MsgsAck env (need_confirmation self)))
             (MsgsAck env (need_confirmation self)))))\<rparr>)"
proof -
  let ?ack = "MsgsAck env (need_confirmation self)"
  let ?e = "send_entry self"
  let ?s3 = "(after_packet env ?e (on_send ?ack) ?ack)\<lparr>need_confirmation := []\<rparr>"
  have n: "need_confirmation ?e = need_confirmation self"
    by (simp add: send_entry_def)
  have unfold: "send env self rq =
      (case (case send_packet env ?e (on_send ?ack) ?ack of
               (Inl e, self3, _) \<Rightarrow> (Inl e, self3)
             | (Inr _, self3, _) \<Rightarrow> (Inr (), self3\<lparr>need_confirmation := []\<rparr>)) of
         (Inl e, self3) \<Rightarrow> (Inl e, self3, rq)
       | (Inr _, self3) \<Rightarrow>
           (case send_packet env self3 (on_send rq) rq of
              (Inl e, self4, rq1) \<Rightarrow> (Inl e, self4, rq1)
            | (Inr _, self4, rq1) \<Rightarrow> (Inr (), self4\<lparr>session := save (session self4)\<rparr>, rq1)))"
    using assms(1) n by (simp add: send_def send_entry_def Let_def)
  have fit1: "fits_wire ?e (on_send ?ack) ?ack"
  proof (rule ccontr)
    assume "\<not> fits_wire ?e (on_send ?ack) ?ack"
    from send_packet_unfit [OF this, of env] have "fst (send env self rq) = Inl OverflowError"
      unfolding unfold
      by (cases "send_packet env ?e (on_send ?ack) ?ack") (auto split: sum.splits)
    with ok show False by simp
  qed
  have step1: "send env self rq =
      (case send_packet env ?s3 (on_send rq) rq of
         (Inl e, self4, rq1) \<Rightarrow> (Inl e, self4, rq1)
       | (Inr _, self4, rq1) \<Rightarrow> (Inr (), self4\<lparr>session := save (session self4)\<rparr>, rq1))"
    unfolding unfold by (simp add: send_packet_fits [OF fit1])
  have fit2: "fits_wire ?s3 (on_send rq) rq"
  proof (rule ccontr)
    assume "\<not> fits_wire ?s3 (on_send rq) rq"
    from send_packet_unfit [OF this, of env] have "fst (send env self rq) = Inl OverflowError"
      unfolding step1
      by (cases "send_packet env ?s3 (on_send rq) rq") (auto split: sum.splits)
    with ok show False by simp
  qed
  have s3: "session ?s3 = session (after_packet env ?e (on_send ?ack) ?ack)"
    by simp
  show ?thesis
    unfolding step1 by (simp add: send_packet_fits [OF fit2] s3)
qed

text \<open>
  Claim C3. Whenever \<open>send\<close> returns, the pending-acks buffer is empty. When it was not
  empty at the start, two envelopes went to the transport, in this order: the one of a
  \<open>msgs_ack\<close> serialising exactly the pending ids, not content-related (its sequence
  number is \<open>2 * n\<close> and it leaves the counter alone), then the one of the request. When
  it was empty, the request's envelope alone went out.
\<close>

theorem send_drains_acks:
  assumes "fst (send env self rq) = Inr ()"
  shows "need_confirmation (fst (snd (send env self rq))) = []
     \<and> sent (transport (fst (snd (send env self rq))))
         = sent (transport self)
           @ (if need_confirmation self = [] then [sent_packet env self (on_send rq) rq]
              else [sent_packet env self (msgs_ack_on_send env (need_confirmation self))
                      (MsgsAck env (need_confirmation self)),
                    sent_packet env
                      (after_packet env self (msgs_ack_on_send env (need_confirmation self))
                         (MsgsAck env (need_confirmation self)))
                      (on_send rq) rq])
     \<and> confirmed (MsgsAck env (need_confirmation self)) = False
     \<and> fst (generate_sequence self (confirmed (MsgsAck env (need_confirmation self))))
         = 2 * sequence (session self)"
proof (cases "need_confirmation self = []")
  case True
  have s: "session (send_entry self) = session self"
    by (simp add: send_entry_def)
  have t: "sent (transport (send_entry self)) = sent (transport self)"
    by (simp add: send_entry_def)
  have n: "need_confirmation (send_entry self) = []"
    using True by (simp add: send_entry_def)
  have fit: "fits_wire self (on_send rq) rq"
    using assms send_no_acks [OF True, of env rq] by (auto split: if_splits)
  show ?thesis
    using True n t
    by (simp add: send_no_acks [OF True] fit after_packet_def sent_packet_session [OF s]
        MsgsAck_def generate_sequence_def)
next
  case False
  let ?ack = "MsgsAck env (need_confirmation self)"
  let ?a1 = "after_packet env (send_entry self) (on_send ?ack) ?ack"
  let ?s3 = "?a1\<lparr>need_confirmation := []\<rparr>"
  let ?a2 = "after_packet env ?s3 (on_send rq) rq"
  have s: "session (send_entry self) = session self"
    by (simp add: send_entry_def)
  have t: "sent (transport (send_entry self)) = sent (transport self)"
    by (simp add: send_entry_def)
  have a: "on_send ?ack = msgs_ack_on_send env (need_confirmation self)"
    by (simp add: MsgsAck_def)
  have s3: "session ?s3 = session (after_packet env self (on_send ?ack) ?ack)"
    by (simp add: after_packet_def s)
  have result: "fst (snd (send env self rq)) = ?a2\<lparr>session := save (session ?a2)\<rparr>"
    by (simp add: send_with_acks [OF False assms])
  have need: "need_confirmation (?a2\<lparr>session := save (session ?a2)\<rparr>) = []"
    by (simp add: after_packet_def)
  have sent1: "sent (transport ?s3)
      = sent (transport self) @ [sent_packet env self (on_send ?ack) ?ack]"
    by (simp add: after_packet_def t sent_packet_session [OF s])
  have sent2: "sent (transport (?a2\<lparr>session := save (session ?a2)\<rparr>))
      = sent (transport ?s3) @ [sent_packet env ?s3 (on_send rq) rq]"
    by (simp add: after_packet_def)
  have pk: "sent_packet env ?s3 (on_send rq) rq
      = sent_packet env (after_packet env self (on_send ?ack) ?ack) (on_send rq) rq"
    by (rule sent_packet_session [OF s3])
  have flag: "confirmed ?ack = False"
    by (simp add: MsgsAck_def)
  have even: "fst (generate_sequence self (confirmed ?ack)) = 2 * sequence (session self)"
    unfolding flag by (simp add: generate_sequence_def)
  show ?thesis
    unfolding result need sent2 sent1 pk a [symmetric]
    using False flag even by simp
qed


theorem send_drains_acks_witness:
  "fst (send sample_env ((sample_sender [])\<lparr>need_confirmation := [11, 12]\<rparr>) sample_request) = Inr ()
   \<and> need_confirmation (fst (snd (send sample_env
        ((sample_sender [])\<lparr>need_confirmation := [11, 12]\<rparr>) sample_request))) = []
   \<and> sent (transport (fst (snd (send sample_env
        ((sample_sender [])\<lparr>need_confirmation := [11, 12]\<rparr>) sample_request))))
       = [sent_packet sample_env ((sample_sender [])\<lparr>need_confirmation := [11, 12]\<rparr>)
            (msgs_ack_on_send sample_env [11, 12]) (MsgsAck sample_env [11, 12]),
          sent_packet sample_env
            (after_packet sample_env ((sample_sender [])\<lparr>need_confirmation := [11, 12]\<rparr>)
               (msgs_ack_on_send sample_env [11, 12]) (MsgsAck sample_env [11, 12]))
            [1, 2, 3] sample_request]"
proof -
  have h: "fst (send sample_env ((sample_sender [])\<lparr>need_confirmation := [11, 12]\<rparr>)
             sample_request) = Inr ()"
    by code_simp
  have n: "need_confirmation ((sample_sender [])\<lparr>need_confirmation := [11, 12]\<rparr>) = [11, 12]"
    "sent (transport ((sample_sender [])\<lparr>need_confirmation := [11, 12]\<rparr>)) = []"
    "on_send sample_request = [1, 2, 3]"
    by (simp_all add: sample_sender_def sample_request_def)
  show ?thesis
    using send_drains_acks [OF h] h unfolding n by simp
qed

section \<open>The fault handlers\<close>











lemma process_msg_bad_msg_notification:
  "peek_code rd = Inr (0xa7eff811, r2) \<Longrightarrow>
     process_msg (Suc depth) env f mid sq rd
       = handle_bad_msg_notification (append_need_confirmation f mid) mid sq r2"
  by (simp add: process_msg_tail_def)

text \<open>
  Claim C7. For a \<open>bad_msg_notification\<close> with error code 16 or 17 the handler calls
  \<open>session.update_time_offset\<close> with the msg_id of the message being processed, then
  \<open>session.save\<close>, and returns without an error. For every other code it raises
  \<open>BadMessageError\<close> with that code and leaves everything as it was. The same holds
  when the message arrives through the dispatcher.
\<close>

theorem bad_msg_notification_handling:
  assumes "bad_msg_notification_fields rd = Inr (error_code, r4)"
  shows "(if error_code = 16 \<or> error_code = 17
          then fst (handle_bad_msg_notification f mid sq rd) = Inr (None, r4)
             \<and> calls (session (the_sender (snd (handle_bad_msg_notification f mid sq rd))))
                 = calls (session (the_sender f)) @ [UpdateTimeOffset mid, Save]
          else handle_bad_msg_notification f mid sq rd = (Inl (BadMessageError error_code), f))
     \<and> (peek_code rd0 = Inr (0xa7eff811, rd) \<longrightarrow>
          (if error_code = 16 \<or> error_code = 17
           then fst (process_msg (Suc depth) env f mid sq rd0) = Inr (None, r4)
              \<and> calls (session (the_sender (snd (process_msg (Suc depth) env f mid sq rd0))))
                  = calls (session (the_sender f)) @ [UpdateTimeOffset mid, Save]
           else process_msg (Suc depth) env f mid sq rd0
                  = (Inl (BadMessageError error_code), append_need_confirmation f mid)))"
proof -
  have handler: "\<And>g. (if error_code = 16 \<or> error_code = 17
          then fst (handle_bad_msg_notification g mid sq rd) = Inr (None, r4)
             \<and> calls (session (the_sender (snd (handle_bad_msg_notification g mid sq rd))))
                 = calls (session (the_sender g)) @ [UpdateTimeOffset mid, Save]
          else handle_bad_msg_notification g mid sq rd = (Inl (BadMessageError error_code), g))"
    using assms
    by (simp add: handle_bad_msg_notification_def warning_def save_def update_time_offset_def)
  have c: "calls (session (the_sender (append_need_confirmation f mid)))
             = calls (session (the_sender f))"
    by (simp add: append_need_confirmation_def)
  show ?thesis
    using handler [of f] handler [of "append_need_confirmation f mid"]
    by (auto simp: process_msg_bad_msg_notification c simp del: process_msg.simps)
qed

theorem bad_msg_notification_handling_witness:
  "bad_msg_notification_fields (BinaryReader (bad_msg_message 16))
     = Inr (16, \<lparr>data = bad_msg_message 16, pos = 20\<rparr>)
   \<and> bad_msg_notification_fields (BinaryReader (bad_msg_message 48))
     = Inr (48, \<lparr>data = bad_msg_message 48, pos = 20\<rparr>)
   \<and> peek_code (BinaryReader (bad_msg_message 16)) = Inr (0xa7eff811, BinaryReader (bad_msg_message 16))
   \<and> fst (process_msg (Suc 0) sample_env (sample_frame None) 808 2 (BinaryReader (bad_msg_message 16)))
       = Inr (None, \<lparr>data = bad_msg_message 16, pos = 20\<rparr>)
   \<and> calls (session (the_sender (snd (process_msg (Suc 0) sample_env (sample_frame None) 808 2
        (BinaryReader (bad_msg_message 16)))))) = [UpdateTimeOffset 808, Save]
   \<and> handle_bad_msg_notification (sample_frame None) 808 2 (BinaryReader (bad_msg_message 48))
       = (Inl (BadMessageError 48), sample_frame None)"
proof -
  have h16: "bad_msg_notification_fields (BinaryReader (bad_msg_message 16))
               = Inr (16, \<lparr>data = bad_msg_message 16, pos = 20\<rparr>)"
    by code_simp
  have h48: "bad_msg_notification_fields (BinaryReader (bad_msg_message 48))
               = Inr (48, \<lparr>data = bad_msg_message 48, pos = 20\<rparr>)"
    by code_simp
  have code: "peek_code (BinaryReader (bad_msg_message 16))
                = Inr (0xa7eff811, BinaryReader (bad_msg_message 16))"
    by code_simp
  have c: "calls (session (the_sender (sample_frame None))) = []"
    by code_simp
  show ?thesis
    using bad_msg_notification_handling [OF h16, of "sample_frame None" 808 2
        "BinaryReader (bad_msg_message 16)" 0 sample_env]
      bad_msg_notification_handling [OF h48, of "sample_frame None" 808 2]
      h16 h48 code c
    by auto
qed

section \<open>The rpc_result handler\<close>

lemma process_msg_rpc_result:
  "peek_code rd = Inr (0xf35c6d01, r2) \<Longrightarrow>
     process_msg (Suc depth) env f mid sq rd
       = handle_rpc_result env (append_need_confirmation f mid) mid sq r2"
  by simp

lemma receive_raises:
  assumes "decode_msg env (the_sender f) body = Inr (message, mid, sq)"
    and "fst (process_msg depth env f mid sq (BinaryReader message)) = Inl e"
    and "the_request f \<noteq> None \<or> the_updates f \<noteq> None"
  shows "fst (receive depth env f (body # inbound)) = Inl e"
  using assms
  by (cases "process_msg depth env f mid sq (BinaryReader message)")
     (auto simp: receive_def split: sum.splits)

lemma rpc_result_header_reader:
  assumes "rpc_result_header rd = Inr (request_id, inner_code, r3)"
  shows "r3 = rd\<lparr>pos := pos rd + 16\<rparr>"
  using assms
  by (auto simp: rpc_result_header_def read_int_def read_long_def read_def and_then_def
      split: if_splits)

lemma seek_back:
  "seek (rd\<lparr>pos := pos rd + 16\<rparr>) (- 4) = Inr (rd\<lparr>pos := pos rd + 12\<rparr>)"
  by (simp add: seek_def set_position_def nat_add_distrib)

text \<open>
  Claim C6. With no request there is no latch to set. With a request, the handler sets
  \<open>confirm_received\<close> exactly when the id read from the \<open>rpc_result\<close> is the request's
  msg_id: afterwards the latch holds if it held before or the ids match, the one exception
  being the must-resend \<open>rpc_error\<close>, which clears it again before raising. A plain
  result (neither \<open>rpc_error\<close> nor gzip) with another id returns with the request
  untouched, \<open>on_response\<close> not invoked, and the warning logged; with the request's id
  the reader, rewound to the inner tag, is handed to \<open>on_response\<close>.
\<close>

theorem rpc_result_confirmation:
  assumes "rpc_result_header rd = Inr (request_id, inner_code, r3)"
  shows "map_option confirm_received (the_request (snd (handle_rpc_result env f mid sq rd)))
           = map_option
               (\<lambda>rq. \<not> must_resend_error env inner_code r3
                      \<and> (confirm_received rq \<or> request_id = msg_id rq))
               (the_request f)
     \<and> (case the_request f of
          None \<Rightarrow> the_request (snd (handle_rpc_result env f mid sq rd)) = None
        | Some rq \<Rightarrow>
            inner_code \<noteq> 0x2144ca19 \<and> inner_code \<noteq> 0x3072cfa1 \<longrightarrow>
              fst (handle_rpc_result env f mid sq rd) = Inr (None, rd\<lparr>pos := pos rd + 12\<rparr>)
              \<and> (if request_id = msg_id rq
                  then the_request (snd (handle_rpc_result env f mid sq rd))
                         = Some (rq\<lparr>confirm_received := True,
                                   responses := responses rq @ [drop (pos rd + 12) (data rd)]\<rparr>)
                     \<and> warnings (the_sender (snd (handle_rpc_result env f mid sq rd)))
                         = warnings (the_sender f)
                  else the_request (snd (handle_rpc_result env f mid sq rd)) = Some rq
                     \<and> warnings (the_sender (snd (handle_rpc_result env f mid sq rd)))
                         = warnings (the_sender f)
                           @ [''RPC result found for unknown request (maybe from previous connection session)'']))"
proof -
  note r3 = rpc_result_header_reader [OF assms]
  have sk: "seek r3 (- 4) = Inr (rd\<lparr>pos := pos rd + 12\<rparr>)"
    unfolding r3 by (rule seek_back)
  show ?thesis
  proof (cases "the_request f")
    case None
    then show ?thesis
      using assms
      by (cases "rpc_error_fields env r3")
         (auto simp: handle_rpc_result_def Let_def warning_def must_resend_error_def)
  next
    case (Some rq)
    show ?thesis
    proof (cases "inner_code = 0x2144ca19")
      case True
      then show ?thesis
        using assms Some
        by (cases "rpc_error_fields env r3")
           (auto simp: handle_rpc_result_def Let_def warning_def must_resend_error_def)
    next
      case False
      show ?thesis
      proof (cases "inner_code = 0x3072cfa1")
        case True
        then show ?thesis
          using assms Some
          by (cases "unpacked_response env r3")
             (auto simp: handle_rpc_result_def Let_def must_resend_error_def on_response_def)
      next
        case plain: False
        show ?thesis
          using assms Some False plain sk
          by (auto simp: handle_rpc_result_def Let_def must_resend_error_def on_response_def
              warning_def)
      qed
    qed
  qed
qed

theorem rpc_result_confirmation_witness:
  "rpc_result_header (BinaryReader (rpc_result_message 123 plain_inner))
     = Inr (123, 0x997275b5, \<lparr>data = rpc_result_message 123 plain_inner, pos = 16\<rparr>)
   \<and> the_request (sample_frame (Some (sample_request\<lparr>msg_id := 400\<rparr>)))
       = Some (sample_request\<lparr>msg_id := 400\<rparr>)
   \<and> fst (handle_rpc_result sample_env (sample_frame (Some (sample_request\<lparr>msg_id := 400\<rparr>)))
        808 2 (BinaryReader (rpc_result_message 123 plain_inner)))
       = Inr (None, \<lparr>data = rpc_result_message 123 plain_inner, pos = 12\<rparr>)
   \<and> the_request (snd (handle_rpc_result sample_env
        (sample_frame (Some (sample_request\<lparr>msg_id := 400\<rparr>))) 808 2
        (BinaryReader (rpc_result_message 123 plain_inner))))
       = Some (sample_request\<lparr>msg_id := 400\<rparr>)
   \<and> warnings (the_sender (snd (handle_rpc_result sample_env
        (sample_frame (Some (sample_request\<lparr>msg_id := 400\<rparr>))) 808 2
        (BinaryReader (rpc_result_message 123 plain_inner)))))
       = [''RPC result found for unknown request (maybe from previous connection session)'']"
proof -
  have h: "rpc_result_header (BinaryReader (rpc_result_message 123 plain_inner))
             = Inr (123, 0x997275b5, \<lparr>data = rpc_result_message 123 plain_inner, pos = 16\<rparr>)"
    by code_simp
  have live: "the_request (sample_frame (Some (sample_request\<lparr>msg_id := 400\<rparr>)))
                = Some (sample_request\<lparr>msg_id := 400\<rparr>)"
    by (simp add: sample_frame_def)
  have v: "msg_id (sample_request\<lparr>msg_id := 400\<rparr>) = 400"
    "warnings (the_sender (sample_frame (Some (sample_request\<lparr>msg_id := 400\<rparr>)))) = []"
    "pos (BinaryReader (rpc_result_message 123 plain_inner)) = 0"
    "data (BinaryReader (rpc_result_message 123 plain_inner)) = rpc_result_message 123 plain_inner"
    by (simp_all add: sample_frame_def sample_sender_def BinaryReader_def)
  show ?thesis
    using rpc_result_confirmation [OF h, of sample_env
        "sample_frame (Some (sample_request\<lparr>msg_id := 400\<rparr>))" 808 2] h
    unfolding live v by (auto simp: BinaryReader_def)
qed

text \<open>
  Claim C9. When the inner tag is \<open>gzip_packed\<close> and a request is supplied, the
  decompressed bytes are handed to \<open>request.on_response\<close> whatever the id read from the
  \<open>rpc_result\<close> is; only the latch depends on the ids.
\<close>

theorem gzip_result_unguarded:
  assumes "rpc_result_header rd = Inr (request_id, 0x3072cfa1, r3)"
    and "the_request f = Some rq"
    and "unpacked_response env r3 = Inr (unpacked_data, r4)"
  shows "handle_rpc_result env f mid sq rd
           = (Inr (None, r4),
              f\<lparr>the_request :=
                  Some (rq\<lparr>confirm_received := confirm_received rq \<or> request_id = msg_id rq,
                          responses := responses rq @ [unpacked_data]\<rparr>)\<rparr>)"
  using assms
  by (auto simp: handle_rpc_result_def Let_def on_response_def BinaryReader_def)

text \<open>A stale gzipped result for id 123 is delivered to the request with msg_id 400.\<close>

theorem gzip_result_unguarded_witness:
  "rpc_result_header (BinaryReader (rpc_result_message 123 gzip_inner))
     = Inr (123, 0x3072cfa1, \<lparr>data = rpc_result_message 123 gzip_inner, pos = 16\<rparr>)
   \<and> the_request (sample_frame (Some (sample_request\<lparr>msg_id := 400\<rparr>)))
       = Some (sample_request\<lparr>msg_id := 400\<rparr>)
   \<and> unpacked_response sample_env \<lparr>data = rpc_result_message 123 gzip_inner, pos = 16\<rparr>
       = Inr ([9, 9, 9], \<lparr>data = rpc_result_message 123 gzip_inner, pos = 20\<rparr>)
   \<and> 123 \<noteq> msg_id (sample_request\<lparr>msg_id := 400\<rparr>)
   \<and> the_request (snd (handle_rpc_result sample_env
        (sample_frame (Some (sample_request\<lparr>msg_id := 400\<rparr>))) 808 2
        (BinaryReader (rpc_result_message 123 gzip_inner))))
       = Some (sample_request\<lparr>msg_id := 400, responses := [[9, 9, 9]]\<rparr>)"
proof -
  have h: "rpc_result_header (BinaryReader (rpc_result_message 123 gzip_inner))
             = Inr (123, 0x3072cfa1, \<lparr>data = rpc_result_message 123 gzip_inner, pos = 16\<rparr>)"
    by code_simp
  have live: "the_request (sample_frame (Some (sample_request\<lparr>msg_id := 400\<rparr>)))
                = Some (sample_request\<lparr>msg_id := 400\<rparr>)"
    by (simp add: sample_frame_def)
  have u: "unpacked_response sample_env \<lparr>data = rpc_result_message 123 gzip_inner, pos = 16\<rparr>
             = Inr ([9, 9, 9], \<lparr>data = rpc_result_message 123 gzip_inner, pos = 20\<rparr>)"
    by code_simp
  have v: "(123::int) \<noteq> msg_id (sample_request\<lparr>msg_id := 400\<rparr>)"
    by simp
  show ?thesis
    using gzip_result_unguarded [OF h live u, of 808 2] h live u v
    by (simp add: sample_request_def)
qed

text \<open>
  Claim C8, as amended. For an \<open>rpc_error\<close> whose message starts with \<open>FLOOD_WAIT_\<close>
  the handler records the integer suffix in \<open>updates_thread_sleep\<close> and raises
  \<open>FloodWaitError\<close> with it, and \<open>receive\<close> passes the error on to its caller; unless
  the taxonomy declares the error must-resend and no request was supplied: then ValueError
  is raised before the classification and nothing is recorded.
\<close>

theorem flood_wait_classification:
  assumes "rpc_result_header rd = Inr (request_id, 0x2144ca19, r3)"
    and "rpc_error_fields env r3 = Inr (code, message)"
    and "startswith message ''FLOOD_WAIT_''"
  shows "(if must_resend env code message \<and> the_request f = None
          then fst (handle_rpc_result env f mid sq rd) = Inl ValueError
             \<and> updates_thread_sleep (the_sender (snd (handle_rpc_result env f mid sq rd)))
                 = updates_thread_sleep (the_sender f)
          else fst (handle_rpc_result env f mid sq rd)
                 = Inl (FloodWaitError (additional_data message))
             \<and> updates_thread_sleep (the_sender (snd (handle_rpc_result env f mid sq rd)))
                 = additional_data message)
     \<and> (\<not> (must_resend env code message \<and> the_request f = None)
          \<and> peek_code (BinaryReader payload) = Inr (0xf35c6d01, rd)
          \<and> decode_msg env (the_sender f) body = Inr (payload, mid, sq)
          \<and> (the_request f \<noteq> None \<or> the_updates f \<noteq> None) \<longrightarrow>
          fst (receive (Suc depth) env f (body # inbound))
            = Inl (FloodWaitError (additional_data message)))"
proof -
  have handler: "(if must_resend env code message \<and> the_request g = None
          then fst (handle_rpc_result env g mid sq rd) = Inl ValueError
             \<and> updates_thread_sleep (the_sender (snd (handle_rpc_result env g mid sq rd)))
                 = updates_thread_sleep (the_sender g)
          else fst (handle_rpc_result env g mid sq rd)
                 = Inl (FloodWaitError (additional_data message))
             \<and> updates_thread_sleep (the_sender (snd (handle_rpc_result env g mid sq rd)))
                 = additional_data message)" for g
    using assms
    by (cases "the_request g") (auto simp: handle_rpc_result_def Let_def warning_def)
  have r: "fst (receive (Suc depth) env f (body # inbound))
             = Inl (FloodWaitError (additional_data message))"
    if live: "\<not> (must_resend env code message \<and> the_request f = None)"
      and code: "peek_code (BinaryReader payload) = Inr (0xf35c6d01, rd)"
      and dec: "decode_msg env (the_sender f) body = Inr (payload, mid, sq)"
      and one: "the_request f \<noteq> None \<or> the_updates f \<noteq> None"
  proof -
    have a: "the_request (append_need_confirmation f mid) = the_request f"
      by (simp add: append_need_confirmation_def)
    have "fst (process_msg (Suc depth) env f mid sq (BinaryReader payload))
            = Inl (FloodWaitError (additional_data message))"
      unfolding process_msg_rpc_result [OF code]
      using handler [of "append_need_confirmation f mid"] live by (simp add: a)
    then show ?thesis
      using one by (intro receive_raises [OF dec]) simp_all
  qed
  show ?thesis
    using handler [of f] r by blast
qed

text \<open>Code 420 with \<open>FLOOD_WAIT_7\<close>: \<open>FloodWaitError\<close> with 7 seconds, out of
  \<open>receive\<close>.\<close>

theorem flood_wait_classification_witness:
  "rpc_result_header (BinaryReader (rpc_result_message 400 (rpc_error_inner 420)))
     = Inr (400, 0x2144ca19, \<lparr>data = rpc_result_message 400 (rpc_error_inner 420), pos = 16\<rparr>)
   \<and> rpc_error_fields sample_env \<lparr>data = rpc_result_message 400 (rpc_error_inner 420), pos = 16\<rparr>
       = Inr (420, ''FLOOD_WAIT_7'')
   \<and> startswith ''FLOOD_WAIT_7'' ''FLOOD_WAIT_''
   \<and> additional_data ''FLOOD_WAIT_7'' = Some 7
   \<and> fst (handle_rpc_result sample_env (sample_frame None) 808 2
        (BinaryReader (rpc_result_message 400 (rpc_error_inner 420))))
       = Inl (FloodWaitError (Some 7))
   \<and> updates_thread_sleep (the_sender (snd (handle_rpc_result sample_env (sample_frame None) 808 2
        (BinaryReader (rpc_result_message 400 (rpc_error_inner 420)))))) = Some 7
   \<and> fst (receive (Suc 0) sample_env (sample_frame None)
        [inbound_envelope (rpc_result_message 400 (rpc_error_inner 420))])
       = Inl (FloodWaitError (Some 7))"
proof -
  have h: "rpc_result_header (BinaryReader (rpc_result_message 400 (rpc_error_inner 420)))
     = Inr (400, 0x2144ca19, \<lparr>data = rpc_result_message 400 (rpc_error_inner 420), pos = 16\<rparr>)"
    by code_simp
  have e: "rpc_error_fields sample_env
             \<lparr>data = rpc_result_message 400 (rpc_error_inner 420), pos = 16\<rparr>
           = Inr (420, ''FLOOD_WAIT_7'')"
    by code_simp
  have s: "startswith ''FLOOD_WAIT_7'' ''FLOOD_WAIT_''"
    by code_simp
  have a: "additional_data ''FLOOD_WAIT_7'' = Some 7"
    by code_simp
  have m: "\<not> (must_resend sample_env 420 ''FLOOD_WAIT_7'' \<and> the_request (sample_frame None) = None)"
    by code_simp
  have code: "peek_code (BinaryReader (rpc_result_message 400 (rpc_error_inner 420)))
                = Inr (0xf35c6d01, BinaryReader (rpc_result_message 400 (rpc_error_inner 420)))"
    by code_simp
  have dec: "decode_msg sample_env (the_sender (sample_frame None))
               (inbound_envelope (rpc_result_message 400 (rpc_error_inner 420)))
             = Inr (rpc_result_message 400 (rpc_error_inner 420), 808, 2)"
    by code_simp
  have u: "the_request (sample_frame None) \<noteq> None \<or> the_updates (sample_frame None) \<noteq> None"
    by code_simp
  show ?thesis
    using flood_wait_classification [OF h e s, of "sample_frame None" 808 2
        "rpc_result_message 400 (rpc_error_inner 420)"
        "inbound_envelope (rpc_result_message 400 (rpc_error_inner 420))" 0 "[]"]
      h e s a m code dec u
    by auto
qed

text \<open>
  Claim C8 as stated fails: the must-resend code 303 with the message \<open>FLOOD_WAIT_7\<close>,
  received without a request, raises ValueError and records no sleep.
\<close>

theorem flood_wait_counterexample:
  "rpc_error_fields sample_env \<lparr>data = rpc_result_message 400 (rpc_error_inner 303), pos = 16\<rparr>
     = Inr (303, ''FLOOD_WAIT_7'')
   \<and> startswith ''FLOOD_WAIT_7'' ''FLOOD_WAIT_''
   \<and> fst (handle_rpc_result sample_env (sample_frame None) 808 2
        (BinaryReader (rpc_result_message 400 (rpc_error_inner 303)))) = Inl ValueError
   \<and> updates_thread_sleep (the_sender (snd (handle_rpc_result sample_env (sample_frame None) 808 2
        (BinaryReader (rpc_result_message 400 (rpc_error_inner 303)))))) = None
   \<and> fst (receive (Suc 0) sample_env (sample_frame None)
        [inbound_envelope (rpc_result_message 400 (rpc_error_inner 303))]) = Inl ValueError"
  by code_simp

section \<open>The pong handler\<close>

lemma process_msg_pong:
  "peek_code rd = Inr (0x347773c5, r2) \<Longrightarrow>
     process_msg (Suc depth) env f mid sq rd = handle_pong (append_need_confirmation f mid) mid sq r2"
  by simp

text \<open>
  Claim C10. The pong handler reads \<open>request.msg_id\<close> without asking whether there is
  a request: for a pong dispatched with no request it raises AttributeError instead of
  returning \<open>False\<close>, through the dispatcher and out of \<open>receive\<close> in its
  updates-only mode.
\<close>

theorem pong_without_request:
  assumes "pong_fields rd = Inr (received_msg_id, r3)" and "the_request f = None"
  shows "handle_pong f mid sq rd = (Inl AttributeError, f)
     \<and> (peek_code rd0 = Inr (0x347773c5, rd) \<longrightarrow>
          process_msg (Suc depth) env f mid sq rd0
            = (Inl AttributeError, append_need_confirmation f mid))
     \<and> (peek_code (BinaryReader message) = Inr (0x347773c5, rd)
          \<and> decode_msg env (the_sender f) body = Inr (message, mid, sq) \<longrightarrow>
          (the_updates f \<noteq> None \<longrightarrow>
             fst (receive (Suc depth) env f (body # inbound)) = Inl AttributeError)
          \<and> fst (receive_update (Suc depth) env (the_sender f) (body # inbound))
              = Inl AttributeError)"
proof -
  have handler: "\<And>g. the_request g = None \<Longrightarrow> handle_pong g mid sq rd = (Inl AttributeError, g)"
    using assms(1) by (simp add: handle_pong_def)
  have p: "process_msg (Suc depth) env g mid sq rd0
             = (Inl AttributeError, append_need_confirmation g mid)"
    if "peek_code rd0 = Inr (0x347773c5, rd)" and "the_request g = None" for rd0 g
  proof -
    have "the_request (append_need_confirmation g mid) = None"
      using that(2) by (simp add: append_need_confirmation_def)
    from handler [OF this] show ?thesis
      using that(1) by (simp add: process_msg_pong del: process_msg.simps)
  qed
  have r: "fst (receive (Suc depth) env g (body # inbound)) = Inl AttributeError"
    if "peek_code (BinaryReader message) = Inr (0x347773c5, rd)"
      and "decode_msg env (the_sender g) body = Inr (message, mid, sq)"
      and "the_updates g \<noteq> None" and "the_request g = None" for g
  proof -
    have "fst (process_msg (Suc depth) env g mid sq (BinaryReader message)) = Inl AttributeError"
      using p [OF that(1) that(4)] by simp
    then show ?thesis
      using that(3) by (intro receive_raises [OF that(2)]) simp_all
  qed
  have u: "fst (receive_update (Suc depth) env (the_sender f) (body # inbound))
             = Inl AttributeError"
    if "peek_code (BinaryReader message) = Inr (0x347773c5, rd)"
      and "decode_msg env (the_sender f) body = Inr (message, mid, sq)"
  proof -
    let ?g = "\<lparr>the_sender = the_sender f, the_request = None, the_updates = Some []\<rparr>"
    have "fst (receive (Suc depth) env ?g (body # inbound)) = Inl AttributeError"
      using that by (intro r) simp_all
    then show ?thesis
      by (cases "receive (Suc depth) env ?g (body # inbound)")
         (auto simp: receive_update_def split: sum.splits)
  qed
  show ?thesis
    using handler [OF assms(2)] p [OF _ assms(2)] r [OF _ _ _ assms(2)] u by blast
qed

theorem pong_without_request_witness:
  "pong_fields (BinaryReader pong_message) = Inr (400, \<lparr>data = pong_message, pos = 12\<rparr>)
   \<and> the_request (sample_frame None) = None
   \<and> peek_code (BinaryReader pong_message) = Inr (0x347773c5, BinaryReader pong_message)
   \<and> decode_msg sample_env (the_sender (sample_frame None)) (inbound_envelope pong_message)
       = Inr (pong_message, 808, 2)
   \<and> the_updates (sample_frame None) \<noteq> None
   \<and> handle_pong (sample_frame None) 808 2 (BinaryReader pong_message)
       = (Inl AttributeError, sample_frame None)
   \<and> fst (receive (Suc 0) sample_env (sample_frame None) [inbound_envelope pong_message])
       = Inl AttributeError
   \<and> fst (receive_update (Suc 0) sample_env (the_sender (sample_frame None))
        [inbound_envelope pong_message]) = Inl AttributeError"
proof -
  have h: "pong_fields (BinaryReader pong_message) = Inr (400, \<lparr>data = pong_message, pos = 12\<rparr>)"
    by code_simp
  have n: "the_request (sample_frame None) = None"
    by code_simp
  have code: "peek_code (BinaryReader pong_message) = Inr (0x347773c5, BinaryReader pong_message)"
    by code_simp
  have dec: "decode_msg sample_env (the_sender (sample_frame None)) (inbound_envelope pong_message)
               = Inr (pong_message, 808, 2)"
    by code_simp
  have u: "the_updates (sample_frame None) \<noteq> None"
    by code_simp
  show ?thesis
    using pong_without_request [OF h n, of 808 2 "BinaryReader pong_message" 0 sample_env
        pong_message "inbound_envelope pong_message" "[]"]
      h n code dec u
    by auto
qed

end
